theory Spec2Isabelle
  imports Complex_Main "HOL-Library.Char_ord" "HOL-Library.List_Lexorder"
begin

section \<open>Data model (models.py)\<close>

text \<open>
  Python values of type \<open>Any\<close> (borrower and loan attributes, feature values, request
  and response maps) are values of \<open>pyval\<close>. A \<open>str\<close> is a \<open>string\<close>: the bytes of
  its UTF-8 encoding, whose lexicographic order is the order of the code points that
  Python compares, and whose characters are the code points (\<open>code_points\<close> below). A \<open>float\<close> is a real number. A dictionary whose order matters is an
  association list, read with \<open>map_of\<close>.
\<close>

datatype pyval =
    PNone
  | PBool bool
  | PInt int
  | PFloat real
  | PStr string
  | PList "pyval list"
  | PDict "(string \<times> pyval) list"

text \<open>Python's truth value of an object, as \<open>if value:\<close> and \<open>not value\<close> test it.\<close>

fun truthy :: "pyval \<Rightarrow> bool" where
  "truthy PNone = False"
| "truthy (PBool b) = b"
| "truthy (PInt i) = (i \<noteq> 0)"
| "truthy (PFloat r) = (r \<noteq> 0)"
| "truthy (PStr s) = (s \<noteq> [])"
| "truthy (PList xs) = (xs \<noteq> [])"
| "truthy (PDict d) = (d \<noteq> [])"

text \<open>
  The metadata of a policy chunk is read at three keys only: \<open>guidance\<close>,
  \<open>interest_band\<close> and \<open>required_documents\<close>. Each is an optional field carrying the
  type the data model gives it; \<open>None\<close> is the absent key. The \<open>interest_band\<close>
  sub-structure is read at four keys, each optional in the same way.
\<close>

record band_data =
  md_min_apr :: "real option"
  md_max_apr :: "real option"
  md_policy_reference :: "string option"
  md_conditions :: "string list option"

record metadata =
  guidance :: "string option"
  interest_band_md :: "band_data option"
  required_documents_md :: "string list option"

record policy_chunk =
  chunk_id :: string
  chunk_title :: string
  chunk_section :: string
  chunk_text :: string
  chunk_metadata :: metadata

record risk_feature =
  feature_code :: string
  feature_description :: string
  feature_value :: pyval
  feature_direction :: string
  feature_weight :: real

record reason_code =
  code :: string
  description :: string

record risk_score_result =
  score :: real
  features :: "risk_feature list"
  reason_codes :: "reason_code list"

record loan_application =
  application_id :: string
  borrower :: "string \<rightharpoonup> pyval"
  loan :: "string \<rightharpoonup> pyval"
  region :: string
  product :: string
  app_context :: "(string \<times> pyval) list option"

record governance_log_record =
  event_type :: string
  log_id :: string
  payload_hash :: "string option"

record interest_band =
  min_apr :: real
  max_apr :: real
  policy_reference :: string
  conditions :: "string list"

subsection \<open>PolicyChunk.quote\<close>

text \<open>
  The characters of a \<open>str\<close>: in the UTF-8 encoding a character is a byte that is no
  continuation byte (a byte from 128 to 191), with the continuation bytes after it.
\<close>

definition is_continuation :: "char \<Rightarrow> bool" where
  "is_continuation b = (let n = (of_char b :: nat) in 128 \<le> n \<and> n < 192)"

fun code_points_from :: "string \<Rightarrow> string \<Rightarrow> string list" where
  "code_points_from cur [] = (if cur = [] then [] else [cur])"
| "code_points_from cur (b # bs) =
     (if cur = [] \<or> is_continuation b then code_points_from (cur @ [b]) bs
      else cur # code_points_from [b] bs)"

definition code_points :: "string \<Rightarrow> string list" where
  "code_points s = code_points_from [] s"

text \<open>
  \<open>str.split()\<close> without arguments cuts the text at runs of whitespace and drops empty
  words. The whitespace characters are the ones \<open>str.isspace\<close> accepts: U+0009 to
  U+000D, U+001C to U+0020, U+0085, U+00A0, U+1680, U+2000 to U+200A, U+2028, U+2029,
  U+202F, U+205F and U+3000, here in their UTF-8 encoding.
\<close>

definition whitespace :: "string list" where
  "whitespace =
     map (\<lambda>b. [b]) [CHR 0x09, CHR 0x0A, CHR 0x0B, CHR 0x0C, CHR 0x0D,
                    CHR 0x1C, CHR 0x1D, CHR 0x1E, CHR 0x1F, CHR 0x20]
     @ [[CHR 0xC2, CHR 0x85], [CHR 0xC2, CHR 0xA0], [CHR 0xE1, CHR 0x9A, CHR 0x80]]
     @ map (\<lambda>b. [CHR 0xE2, CHR 0x80, b])
         [CHR 0x80, CHR 0x81, CHR 0x82, CHR 0x83, CHR 0x84, CHR 0x85, CHR 0x86, CHR 0x87,
          CHR 0x88, CHR 0x89, CHR 0x8A, CHR 0xA8, CHR 0xA9, CHR 0xAF]
     @ [[CHR 0xE2, CHR 0x81, CHR 0x9F], [CHR 0xE3, CHR 0x80, CHR 0x80]]"

definition is_space :: "string \<Rightarrow> bool" where
  "is_space c = (c \<in> set whitespace)"

fun split_from :: "string \<Rightarrow> string list \<Rightarrow> string list" where
  "split_from w [] = (if w = [] then [] else [w])"
| "split_from w (c # cs) =
     (if is_space c then (if w = [] then split_from [] cs else w # split_from [] cs)
      else split_from (w @ c) cs)"

definition split :: "string \<Rightarrow> string list" where
  "split s = split_from [] (code_points s)"

fun join :: "string \<Rightarrow> string list \<Rightarrow> string" where
  "join sep [] = []"
| "join sep [w] = w"
| "join sep (w # v # ws) = w @ sep @ join sep (v # ws)"

text \<open>The slice \<open>xs[:n]\<close>: a negative \<open>n\<close> counts from the end.\<close>

definition slice_to :: "int \<Rightarrow> 'a list \<Rightarrow> 'a list" where
  "slice_to n xs = (if 0 \<le> n then take (nat n) xs else take (length xs - nat (- n)) xs)"

definition quote_limit :: "policy_chunk \<Rightarrow> int \<Rightarrow> string" where
  "quote_limit chunk word_limit =
     (let words = split (chunk_text chunk) in
      if int (length words) \<le> word_limit then chunk_text chunk
      else join '' '' (slice_to word_limit words))"

text \<open>\<open>chunk.quote()\<close>, with the default word limit.\<close>

definition quote :: "policy_chunk \<Rightarrow> string" where
  "quote chunk = quote_limit chunk 50"

section \<open>Python built-ins used by the orchestrator\<close>

text \<open>
  \<open>repr\<close> of an arbitrary value is a parameter of the model. \<open>str\<close> of a string is the
  string itself, and of a value of the other types of \<open>pyval\<close> it is its \<open>repr\<close>.
\<close>

definition py_str :: "(pyval \<Rightarrow> string) \<Rightarrow> pyval \<Rightarrow> string" where
  "py_str repr v = (case v of PStr s \<Rightarrow> s | _ \<Rightarrow> repr v)"

text \<open>\<open>d.get(key, default)\<close>; \<open>d.get(key)\<close> has the default \<open>None\<close>.\<close>

definition or_default :: "'v option \<Rightarrow> 'v \<Rightarrow> 'v" where
  "or_default found dflt = (case found of None \<Rightarrow> dflt | Some v \<Rightarrow> v)"

definition get_or :: "('k \<rightharpoonup> 'v) \<Rightarrow> 'k \<Rightarrow> 'v \<Rightarrow> 'v" where
  "get_or d k dflt = or_default (d k) dflt"

definition get :: "('k \<rightharpoonup> pyval) \<Rightarrow> 'k \<Rightarrow> pyval" where
  "get d k = get_or d k PNone"

text \<open>
  \<open>str.upper\<close> follows the case mapping of Unicode, which maps some characters
  outside ASCII to ASCII letters (U+0131 to I, U+017F to S): it is a parameter \<open>upper\<close>
  of the model, and \<open>ascii_upper\<close> is what it does on ASCII text. \<open>str.lower\<close> is
  used in one comparison, with the text increase, where it decides as its restriction to
  the ASCII letters does: outside ASCII only U+212A is mapped to an ASCII letter alone,
  the letter k, which the text increase does not have.
\<close>

definition upper_char :: "char \<Rightarrow> char" where
  "upper_char c = (let n = (of_char c :: nat) in if 97 \<le> n \<and> n \<le> 122 then char_of (n - 32) else c)"

definition lower_char :: "char \<Rightarrow> char" where
  "lower_char c = (let n = (of_char c :: nat) in if 65 \<le> n \<and> n \<le> 90 then char_of (n + 32) else c)"

definition ascii_upper :: "string \<Rightarrow> string" where
  "ascii_upper s = map upper_char s"

definition lower :: "string \<Rightarrow> string" where
  "lower s = map lower_char s"

definition startswith :: "string \<Rightarrow> string \<Rightarrow> bool" where
  "startswith s p = (take (length p) s = p)"

text \<open>
  \<open>round(x, 2)\<close> on the reals: the nearest multiple of one hundredth, a tie going to
  the even one.
\<close>

definition round2 :: "real \<Rightarrow> real" where
  "round2 x =
     (let y = x * 100; f = \<lfloor>y\<rfloor>; d = y - of_int f;
          r = (if d < 1 / 2 then f else if 1 / 2 < d then f + 1 else if even f then f else f + 1)
      in of_int r / 100)"

section \<open>Collaborators, faults and the call trace (tools.py)\<close>

datatype error = KeyError string | TypeError | ValueError | AttributeError | Fault string

text \<open>The payloads of the five governance events, one constructor per event.\<close>

datatype log_payload =
    ProblemReceived string string string bool
  | RetrievalDone string string "string list"
  | RiskScored string real "string list"
  | DocsRequested string "string list" "string option"
  | PacketComposed string "string list"

record risk_payload =
  rp_application_id :: string
  rp_borrower :: "string \<rightharpoonup> pyval"
  rp_loan :: "string \<rightharpoonup> pyval"
  rp_region :: string
  rp_product :: string
  rp_context :: "(string \<times> pyval) list option"

record reason_entry =
  label :: string
  detail :: string
  source_type :: string
  id_or_code :: string

record citation =
  cit_chunk_id :: string
  cit_title :: string
  cit_section :: string
  cit_quote :: string

record user_packet_payload =
  pk_application_id :: string
  pk_risk_score_value :: real
  pk_risk_score_tier :: string
  pk_reasons :: "reason_entry list"
  pk_requested_documents :: "string list"
  pk_policy_citations :: "citation list"
  pk_interest_band :: "interest_band option"

text \<open>
  A collaborator is a function on the state \<open>'w\<close> of the world outside the
  orchestrator. It returns a fault, or its result with the new state.
\<close>

type_synonym ('a, 'w) tool = "'w \<Rightarrow> error + 'a \<times> 'w"

record 'w assistant =
  policy_docs_retriever :: "string \<Rightarrow> int \<Rightarrow> (policy_chunk list, 'w) tool"
  risk_scoring_api :: "risk_payload \<Rightarrow> (risk_score_result, 'w) tool"
  get_policy_by_id :: "string list \<Rightarrow> (string \<rightharpoonup> policy_chunk, 'w) tool"
  compose_user_packet :: "user_packet_payload \<Rightarrow> (pyval, 'w) tool"
  request_additional_docs :: "string list \<Rightarrow> (pyval, 'w) tool"
  governance_log :: "string \<Rightarrow> log_payload \<Rightarrow> (governance_log_record, 'w) tool"
  interest_policy_resolver :: "(policy_chunk list \<Rightarrow> string \<Rightarrow> (interest_band option, 'w) tool) option"
  policy_top_k :: int

text \<open>
  The trace is ghost state: every call of a collaborator appends the call, with its
  arguments, and what came back. The orchestrator never reads it.
\<close>

datatype call =
    Log string log_payload
  | Retrieve string int
  | Score risk_payload
  | PolicyById "string list"
  | RequestDocs "string list"
  | Compose user_packet_payload
  | ResolveBand "policy_chunk list" string

datatype outcome =
    Raised error
  | Logged governance_log_record
  | Retrieved "policy_chunk list"
  | Scored risk_score_result
  | Canonical "string \<rightharpoonup> policy_chunk"
  | DocsResponse pyval
  | Packet pyval
  | Band "interest_band option"

type_synonym trace = "(call \<times> outcome) list"

text \<open>
  A computation of the orchestrator runs on the world and the trace. A fault aborts it:
  no later step runs, and the trace up to the fault is kept.
\<close>

type_synonym ('a, 'w) run = "'w \<times> trace \<Rightarrow> (error + 'a \<times> 'w) \<times> trace"

definition return :: "'a \<Rightarrow> ('a, 'w) run" where
  "return x = (\<lambda>(w, tr). (Inr (x, w), tr))"

definition bind :: "('a, 'w) run \<Rightarrow> ('a \<Rightarrow> ('b, 'w) run) \<Rightarrow> ('b, 'w) run" where
  "bind m f = (\<lambda>s. case m s of (Inl e, tr) \<Rightarrow> (Inl e, tr) | (Inr (x, w), tr) \<Rightarrow> f x (w, tr))"

definition invoke :: "call \<Rightarrow> ('a \<Rightarrow> outcome) \<Rightarrow> ('a, 'w) tool \<Rightarrow> ('a, 'w) run" where
  "invoke c out tool =
     (\<lambda>(w, tr). case tool w of
        Inl e \<Rightarrow> (Inl e, tr @ [(c, Raised e)])
      | Inr (x, w') \<Rightarrow> (Inr (x, w'), tr @ [(c, out x)]))"

section \<open>The orchestrator (agent.py)\<close>

record risk_score_out =
  rs_value :: real
  rs_scale :: string
  rs_tier :: string

record interest_rate_suggestion_out =
  band_apr_percent :: "real list"
  basis :: string
  irs_conditions :: "string list"

record compliance_out =
  c_region :: string
  c_product :: string
  policy_gap :: bool

record response =
  r_application_id :: string
  risk_score :: risk_score_out
  reasons :: "reason_entry list"
  policy_citations :: "citation list"
  requested_documents :: "string list"
  interest_rate_suggestion :: "interest_rate_suggestion_out option"
  compliance :: compliance_out
  governance_log_ids :: "string list"
  user_packet :: pyval

subsection \<open>Helper methods\<close>

definition log_event :: "'w assistant \<Rightarrow> string \<Rightarrow> log_payload \<Rightarrow> (governance_log_record, 'w) run" where
  "log_event self event payload = invoke (Log event payload) Logged (governance_log self event payload)"

definition build_policy_query :: "(pyval \<Rightarrow> string) \<Rightarrow> loan_application \<Rightarrow> string" where
  "build_policy_query repr application =
     (let context_terms =
            (case app_context application of
               None \<Rightarrow> []
             | Some items \<Rightarrow> map (\<lambda>(key, v). key @ '':'' @ py_str repr v) items);
          base_terms = [region application, product application,
                        ''risk tiering'', ''interest band'', ''documentation'']
      in join '' '' (filter (\<lambda>term. term \<noteq> []) (base_terms @ context_terms)))"

definition build_risk_payload :: "loan_application \<Rightarrow> risk_payload" where
  "build_risk_payload application =
     \<lparr>rp_application_id = application_id application,
      rp_borrower = borrower application,
      rp_loan = loan application,
      rp_region = region application,
      rp_product = product application,
      rp_context = (case app_context application of
                      None \<Rightarrow> None
                    | Some items \<Rightarrow> if items \<noteq> [] then Some items else None)\<rparr>"

definition resolve_policy_chunks :: "'w assistant \<Rightarrow> policy_chunk list \<Rightarrow> (policy_chunk list, 'w) run" where
  "resolve_policy_chunks self policy_chunks =
     (if policy_chunks = [] then return []
      else bind (invoke (PolicyById (map chunk_id policy_chunks)) Canonical
                   (get_policy_by_id self (map chunk_id policy_chunks)))
             (\<lambda>resolved. return (map (\<lambda>chunk. get_or resolved (chunk_id chunk) chunk) policy_chunks)))"

definition build_policy_citations :: "policy_chunk list \<Rightarrow> citation list" where
  "build_policy_citations policy_chunks =
     map (\<lambda>chunk. \<lparr>cit_chunk_id = chunk_id chunk, cit_title = chunk_title chunk,
                    cit_section = chunk_section chunk, cit_quote = quote chunk\<rparr>)
       (slice_to 5 policy_chunks)"

definition tier_from_score :: "real \<Rightarrow> string" where
  "tier_from_score s = (if s < 34 then ''Low'' else if s < 67 then ''Med'' else ''High'')"

text \<open>
  The dictionary \<open>feature_lookup\<close> keeps, for a code that several features carry, the
  last of them.
\<close>

definition feature_lookup :: "risk_feature list \<Rightarrow> string \<rightharpoonup> risk_feature" where
  "feature_lookup fs = map_of (rev (map (\<lambda>feature. (feature_code feature, feature)) fs))"

definition feature_reason :: "(pyval \<Rightarrow> string) \<Rightarrow> risk_score_result \<Rightarrow> reason_code \<Rightarrow> reason_entry" where
  "feature_reason repr risk_result reason =
     (let detail =
            (case feature_lookup (features risk_result) (code reason) of
               None \<Rightarrow> description reason
             | Some feature \<Rightarrow>
                 (let direction = (if lower (feature_direction feature) = ''increase''
                                   then ''raised'' else ''reduced'')
                  in description reason @ '' ''
                     @ [CHR 0xC3, CHR 0xA2, CHR 0xE2, CHR 0x82, CHR 0xAC, CHR 0xE2, CHR 0x80, CHR 0x9D]
                     @ '' feature value '' @ repr (feature_value feature)
                     @ '' '' @ direction @ '' risk''))
      in \<lparr>label = description reason, detail = detail,
          source_type = ''feature'', id_or_code = code reason\<rparr>)"

definition policy_reason :: "policy_chunk \<Rightarrow> reason_entry" where
  "policy_reason chunk =
     \<lparr>label = or_default (guidance (chunk_metadata chunk)) ''Policy guidance'',
      detail = quote chunk, source_type = ''policy'', id_or_code = chunk_id chunk\<rparr>"

definition build_reasons :: "(pyval \<Rightarrow> string) \<Rightarrow> risk_score_result \<Rightarrow> policy_chunk list \<Rightarrow> reason_entry list" where
  "build_reasons repr risk_result policy_chunks =
     (let reasons = map (feature_reason repr risk_result) (reason_codes risk_result);
          reasons = reasons @ map policy_reason
                      (filter (\<lambda>chunk. guidance (chunk_metadata chunk) \<noteq> None) policy_chunks)
      in slice_to 8 reasons)"

definition determine_requested_documents ::
  "(string \<Rightarrow> string) \<Rightarrow> loan_application \<Rightarrow> risk_score_result \<Rightarrow> policy_chunk list
     \<Rightarrow> string list" where
  "determine_requested_documents upper application risk_result policy_chunks =
     (let documents = {};
          documents =
            (if borrower application ''employment_type'' = Some (PStr ''self_employed'')
             then insert ''Most recent 2 years of tax returns'' documents else documents);
          documents =
            (if \<not> truthy (get_or (borrower application) ''income_verified'' (PBool False))
             then insert ''Recent income verification (e.g., pay stubs or bank statements)'' documents
             else documents);
          documents =
            (if truthy (get (loan application) ''collateral_required'')
                \<and> \<not> truthy (get (loan application) ''collateral_documents'')
             then insert ''Collateral ownership evidence'' documents else documents);
          documents =
            fold (\<lambda>rc docs.
                    let docs = (if startswith (upper (code rc)) ''DTI''
                                then insert ''Detailed debt obligation schedule'' docs else docs)
                    in if startswith (upper (code rc)) ''CREDIT''
                       then insert ''Updated credit bureau report'' docs else docs)
              (reason_codes risk_result) documents;
          documents =
            fold (\<lambda>chunk docs.
                    fold insert (or_default (required_documents_md (chunk_metadata chunk)) []) docs)
              policy_chunks documents
      in sorted_list_of_set documents)"

text \<open>
  The scan of the chunks for an interest band. A chunk is passed over when its
  \<open>interest_band\<close> is absent or empty (then both bounds are absent too), or when one of
  the bounds is absent.
\<close>

fun band_from_chunks :: "policy_chunk list \<Rightarrow> interest_band option" where
  "band_from_chunks [] = None"
| "band_from_chunks (chunk # chunks) =
     (case interest_band_md (chunk_metadata chunk) of
        None \<Rightarrow> band_from_chunks chunks
      | Some band_data \<Rightarrow>
          (case (md_min_apr band_data, md_max_apr band_data) of
             (Some lo, Some hi) \<Rightarrow>
               Some \<lparr>min_apr = lo, max_apr = hi,
                     policy_reference = or_default (md_policy_reference band_data) (chunk_id chunk),
                     conditions = or_default (md_conditions band_data) []\<rparr>
           | _ \<Rightarrow> band_from_chunks chunks))"

definition determine_interest_band ::
  "'w assistant \<Rightarrow> string \<Rightarrow> policy_chunk list \<Rightarrow> (interest_band option, 'w) run" where
  "determine_interest_band self risk_tier policy_chunks =
     (case interest_policy_resolver self of
        None \<Rightarrow> return (band_from_chunks policy_chunks)
      | Some resolver \<Rightarrow>
          bind (invoke (ResolveBand policy_chunks risk_tier) Band (resolver policy_chunks risk_tier))
            (\<lambda>band. case band of
                       Some b \<Rightarrow> return (Some b)
                     | None \<Rightarrow> return (band_from_chunks policy_chunks)))"

text \<open>
  The identifier of the document request: the first of the candidate keys whose value
  in the response is truthy, converted with \<open>str\<close>.
\<close>

fun response_id :: "(pyval \<Rightarrow> string) \<Rightarrow> (string \<rightharpoonup> pyval) \<Rightarrow> string list \<Rightarrow> string option" where
  "response_id repr docs_response [] = None"
| "response_id repr docs_response (key # keys) =
     (let v = get docs_response key
      in if truthy v then Some (py_str repr v) else response_id repr docs_response keys)"

definition tool_response_id :: "(pyval \<Rightarrow> string) \<Rightarrow> pyval \<Rightarrow> string option" where
  "tool_response_id repr docs_response =
     (case docs_response of
        PDict d \<Rightarrow> response_id repr (map_of d)
                     [''request_id'', ''id'', ''identifier'', ''response_id'', ''log_id'']
      | _ \<Rightarrow> None)"

subsection \<open>assess\<close>

definition assess ::
  "(pyval \<Rightarrow> string) \<Rightarrow> (string \<Rightarrow> string) \<Rightarrow> 'w assistant \<Rightarrow> loan_application
     \<Rightarrow> (response, 'w) run" where
  "assess repr upper self application =
     bind (log_event self ''problem_received''
             (ProblemReceived (application_id application) (region application)
                (product application) True))
     (\<lambda>rec1.
     let governance_ids = [log_id rec1];
         query = build_policy_query repr application
     in
     bind (invoke (Retrieve query (policy_top_k self)) Retrieved
             (policy_docs_retriever self query (policy_top_k self)))
     (\<lambda>policy_chunks.
     bind (log_event self ''retrieval_done''
             (RetrievalDone (application_id application) query (map chunk_id policy_chunks)))
     (\<lambda>rec2.
     let governance_ids = governance_ids @ [log_id rec2];
         risk_payload = build_risk_payload application
     in
     bind (invoke (Score risk_payload) Scored (risk_scoring_api self risk_payload))
     (\<lambda>risk_result.
     bind (log_event self ''risk_scored''
             (RiskScored (application_id application) (score risk_result)
                (map code (reason_codes risk_result))))
     (\<lambda>rec3.
     let governance_ids = governance_ids @ [log_id rec3] in
     bind (resolve_policy_chunks self policy_chunks)
     (\<lambda>resolved_policies.
     let policy_citations = build_policy_citations resolved_policies;
         risk_tier = tier_from_score (score risk_result);
         reasons = build_reasons repr risk_result resolved_policies;
         requested_documents =
           determine_requested_documents upper application risk_result resolved_policies
     in
     bind (if requested_documents \<noteq> [] then
             bind (invoke (RequestDocs requested_documents) DocsResponse
                     (request_additional_docs self requested_documents))
             (\<lambda>docs_response.
             bind (log_event self ''docs_requested''
                     (DocsRequested (application_id application) requested_documents
                        (tool_response_id repr docs_response)))
             (\<lambda>rec4. return (governance_ids @ [log_id rec4])))
           else return governance_ids)
     (\<lambda>governance_ids.
     bind (determine_interest_band self risk_tier resolved_policies)
     (\<lambda>interest_band.
     let policy_gap = (interest_band = None);
         user_packet_payload =
           \<lparr>pk_application_id = application_id application,
            pk_risk_score_value = score risk_result,
            pk_risk_score_tier = risk_tier,
            pk_reasons = reasons,
            pk_requested_documents = requested_documents,
            pk_policy_citations = policy_citations,
            pk_interest_band = interest_band\<rparr>
     in
     bind (invoke (Compose user_packet_payload) Packet
             (compose_user_packet self user_packet_payload))
     (\<lambda>user_packet.
     bind (log_event self ''packet_composed''
             (PacketComposed (application_id application)
                [''application_id'', ''risk_score'', ''reasons'', ''requested_documents'',
                 ''policy_citations'', ''interest_band'']))
     (\<lambda>rec5.
     let governance_ids = governance_ids @ [log_id rec5] in
     return
       \<lparr>r_application_id = application_id application,
        risk_score = \<lparr>rs_value = score risk_result, rs_scale = ''0-100'', rs_tier = risk_tier\<rparr>,
        reasons = reasons,
        policy_citations = policy_citations,
        requested_documents = requested_documents,
        interest_rate_suggestion =
          (case interest_band of
             None \<Rightarrow> None
           | Some band \<Rightarrow>
               Some \<lparr>band_apr_percent = [round2 (min_apr band), round2 (max_apr band)],
                     basis = policy_reference band,
                     irs_conditions = conditions band\<rparr>),
        compliance = \<lparr>c_region = region application, c_product = product application,
                      policy_gap = policy_gap\<rparr>,
        governance_log_ids = governance_ids,
        user_packet = user_packet\<rparr>))))))))))"

section \<open>The protocol adapter layer (agnostic\_adapter.py)\<close>

text \<open>
  A request map is a dictionary with string keys. \<open>payload[key]\<close> raises \<open>KeyError\<close>
  with the key as its only argument when the key is absent; \<open>payload.get(key, default)\<close>
  is \<open>get_or\<close>.
\<close>

type_synonym request = "string \<rightharpoonup> pyval"

definition subscript :: "request \<Rightarrow> string \<Rightarrow> error + pyval" where
  "subscript payload key = (case payload key of None \<Rightarrow> Inl (KeyError key) | Some v \<Rightarrow> Inr v)"

definition and_then :: "error + 'a \<Rightarrow> ('a \<Rightarrow> error + 'b) \<Rightarrow> error + 'b" where
  "and_then r f = (case r of Inl e \<Rightarrow> Inl e | Inr x \<Rightarrow> f x)"

fun for_each :: "('a \<Rightarrow> error + 'b) \<Rightarrow> 'a list \<Rightarrow> error + 'b list" where
  "for_each f [] = Inr []"
| "for_each f (x # xs) = and_then (f x) (\<lambda>y. and_then (for_each f xs) (\<lambda>ys. Inr (y # ys)))"

text \<open>
  \<open>int(v)\<close>: an integer is kept, a truth value is 0 or 1, a float is truncated towards
  zero, a string is parsed (the parser is a parameter; \<open>None\<close> is a string that is no
  numeral), and nothing else converts.
\<close>

definition py_int :: "(string \<Rightarrow> int option) \<Rightarrow> pyval \<Rightarrow> error + int" where
  "py_int int_of_str v =
     (case v of
        PInt i \<Rightarrow> Inr i
      | PBool b \<Rightarrow> Inr (if b then 1 else 0)
      | PFloat r \<Rightarrow> Inr (if 0 \<le> r then \<lfloor>r\<rfloor> else \<lceil>r\<rceil>)
      | PStr s \<Rightarrow> (case int_of_str s of None \<Rightarrow> Inl ValueError | Some i \<Rightarrow> Inr i)
      | _ \<Rightarrow> Inl TypeError)"

text \<open>
  The items that iterating over a value yields, as \<open>list(v)\<close> and a comprehension
  collect them: the elements of a list, the keys of a dictionary, the characters of a
  string.
\<close>

definition py_list :: "pyval \<Rightarrow> error + pyval list" where
  "py_list v =
     (case v of
        PList xs \<Rightarrow> Inr xs
      | PDict d \<Rightarrow> Inr (map (\<lambda>(k, _). PStr k) d)
      | PStr s \<Rightarrow> Inr (map PStr (code_points s))
      | _ \<Rightarrow> Inl TypeError)"

text \<open>
  A response map is modelled by the entities it encodes: the conversions
  \<open>_policy_chunk_to_dict\<close>, \<open>_risk_result_to_dict\<close>, \<open>_governance_record_to_dict\<close>
  and \<open>_interest_band_to_dict\<close> copy every field. One constructor per key of the six
  response shapes.
\<close>

datatype response_map =
    ChunksMap "policy_chunk list"
  | RiskResultMap risk_score_result
  | PacketMap pyval
  | RequestMap pyval
  | RecordMap governance_log_record
  | BandMap "interest_band option"

record 'w agnostic_tool_adapter =
  adapter_name :: string
  adapter_description :: string
  input_schema :: pyval
  output_schema :: pyval
  handler :: "request \<Rightarrow> (response_map, 'w) tool"

text \<open>\<open>AgnosticToolAdapter.invoke\<close>: the handler is called with the payload as it is.\<close>

definition adapter_invoke :: "'w agnostic_tool_adapter \<Rightarrow> request \<Rightarrow> (response_map, 'w) tool" where
  "adapter_invoke self payload = handler self payload"

definition object_schema :: "(string \<times> pyval) list \<Rightarrow> pyval" where
  "object_schema properties = PDict [(''type'', PStr ''object''), (''properties'', PDict properties)]"

definition typed :: "string \<Rightarrow> pyval" where
  "typed t = PDict [(''type'', PStr t)]"

definition array_of :: "string \<Rightarrow> pyval" where
  "array_of t = PDict [(''type'', PStr ''array''), (''items'', typed t)]"

text \<open>The result of a tool, wrapped into the response map.\<close>

definition respond :: "('a \<Rightarrow> response_map) \<Rightarrow> ('a, 'w) tool \<Rightarrow> (response_map, 'w) tool" where
  "respond wrap tool w = (case tool w of Inl e \<Rightarrow> Inl e | Inr (x, w') \<Rightarrow> Inr (wrap x, w'))"

definition adapt_policy_docs_retriever ::
  "(string \<Rightarrow> int option) \<Rightarrow> (pyval \<Rightarrow> int \<Rightarrow> (policy_chunk list, 'w) tool) \<Rightarrow> 'w agnostic_tool_adapter" where
  "adapt_policy_docs_retriever int_of_str tool =
     \<lparr>adapter_name = ''policy_docs_retriever'',
      adapter_description = ''Retrieve policy chunks relevant to a loan application query.'',
      input_schema = object_schema [(''query'', typed ''string''), (''top_k'', typed ''integer'')],
      output_schema = object_schema [(''chunks'', typed ''array'')],
      handler = (\<lambda>payload w.
        let query = get_or payload ''query'' (PStr '''') in
        case py_int int_of_str (get_or payload ''top_k'' (PInt 5)) of
          Inl e \<Rightarrow> Inl e
        | Inr top_k \<Rightarrow> respond ChunksMap (tool query top_k) w)\<rparr>"

definition adapt_risk_scoring_api ::
  "(pyval \<Rightarrow> (risk_score_result, 'w) tool) \<Rightarrow> 'w agnostic_tool_adapter" where
  "adapt_risk_scoring_api tool =
     \<lparr>adapter_name = ''risk_scoring_api'',
      adapter_description = ''Call the bank's risk scoring service.'',
      input_schema = object_schema [(''payload'', typed ''object'')],
      output_schema = object_schema [(''score'', typed ''number'')],
      handler = (\<lambda>payload w.
        case subscript payload ''payload'' of
          Inl e \<Rightarrow> Inl e
        | Inr data \<Rightarrow> respond RiskResultMap (tool data) w)\<rparr>"

definition adapt_get_policy_by_id ::
  "(pyval \<Rightarrow> ((string \<times> policy_chunk) list, 'w) tool) \<Rightarrow> 'w agnostic_tool_adapter" where
  "adapt_get_policy_by_id tool =
     \<lparr>adapter_name = ''get_policy_by_id'',
      adapter_description = ''Resolve canonical policy chunks by identifier.'',
      input_schema = object_schema [(''ids'', array_of ''string'')],
      output_schema = object_schema [(''chunks'', typed ''array'')],
      handler = (\<lambda>payload w.
        let ids = get_or payload ''ids'' (PList []) in
        respond (\<lambda>resolved. ChunksMap (map snd resolved)) (tool ids) w)\<rparr>"

definition adapt_compose_user_packet ::
  "(pyval \<Rightarrow> (pyval, 'w) tool) \<Rightarrow> 'w agnostic_tool_adapter" where
  "adapt_compose_user_packet tool =
     \<lparr>adapter_name = ''compose_user_packet'',
      adapter_description = ''Compose a channel specific packet from the assessment payload.'',
      input_schema = object_schema [(''data'', typed ''object'')],
      output_schema = object_schema [(''packet'', typed ''object'')],
      handler = (\<lambda>payload w.
        case subscript payload ''data'' of
          Inl e \<Rightarrow> Inl e
        | Inr data \<Rightarrow> respond PacketMap (tool data) w)\<rparr>"

definition adapt_request_additional_docs ::
  "(pyval list \<Rightarrow> (pyval, 'w) tool) \<Rightarrow> 'w agnostic_tool_adapter" where
  "adapt_request_additional_docs tool =
     \<lparr>adapter_name = ''request_additional_docs'',
      adapter_description = ''Trigger the document collection workflow.'',
      input_schema = object_schema [(''documents'', array_of ''string'')],
      output_schema = object_schema [(''request'', typed ''object'')],
      handler = (\<lambda>payload w.
        case py_list (get_or payload ''documents'' (PList [])) of
          Inl e \<Rightarrow> Inl e
        | Inr documents \<Rightarrow> respond RequestMap (tool documents) w)\<rparr>"

definition adapt_governance_log ::
  "(pyval \<Rightarrow> pyval \<Rightarrow> (governance_log_record, 'w) tool) \<Rightarrow> 'w agnostic_tool_adapter" where
  "adapt_governance_log tool =
     \<lparr>adapter_name = ''governance_log'',
      adapter_description = ''Write an event to the governance log.'',
      input_schema = object_schema [(''event_type'', typed ''string''), (''payload'', typed ''object'')],
      output_schema = object_schema [(''log_id'', typed ''string'')],
      handler = (\<lambda>payload w.
        case subscript payload ''event_type'' of
          Inl e \<Rightarrow> Inl e
        | Inr event \<Rightarrow> respond RecordMap (tool event (get_or payload ''payload'' (PDict []))) w)\<rparr>"

text \<open>
  \<open>_policy_chunk_from_dict\<close> checks no type: the chunk it builds holds the values of
  the map as they are, and is modelled by the dictionary of its five fields. Subscripting
  a value that is no dictionary with a string is a \<open>TypeError\<close>.
\<close>

definition policy_chunk_from_dict :: "pyval \<Rightarrow> error + pyval" where
  "policy_chunk_from_dict data =
     (case data of
        PDict d \<Rightarrow>
          and_then (subscript (map_of d) ''chunk_id'') (\<lambda>chunk_id.
          and_then (subscript (map_of d) ''title'') (\<lambda>title.
          and_then (subscript (map_of d) ''section'') (\<lambda>sec.
          and_then (subscript (map_of d) ''text'') (\<lambda>txt.
          Inr (PDict [(''chunk_id'', chunk_id), (''title'', title), (''section'', sec),
                      (''text'', txt),
                      (''metadata'', get_or (map_of d) ''metadata'' (PDict []))])))))
      | _ \<Rightarrow> Inl TypeError)"

definition adapt_interest_policy_resolver ::
  "(pyval list \<Rightarrow> pyval \<Rightarrow> (interest_band option, 'w) tool) \<Rightarrow> 'w agnostic_tool_adapter" where
  "adapt_interest_policy_resolver tool =
     \<lparr>adapter_name = ''interest_policy_resolver'',
      adapter_description = ''Derive an interest band from the resolved policies.'',
      input_schema = object_schema [(''policy_chunks'', typed ''array''), (''risk_tier'', typed ''string'')],
      output_schema = object_schema [(''band'', PDict [(''type'', PList [PStr ''object'', PStr ''null''])])],
      handler = (\<lambda>payload w.
        case and_then (py_list (get_or payload ''policy_chunks'' (PList [])))
               (for_each policy_chunk_from_dict) of
          Inl e \<Rightarrow> Inl e
        | Inr chunks \<Rightarrow>
            (case subscript payload ''risk_tier'' of
               Inl e \<Rightarrow> Inl e
             | Inr risk_tier \<Rightarrow> respond BandMap (tool chunks risk_tier) w))\<rparr>"

text \<open>The arguments an exception carries, and whether one of them contains a text.\<close>

definition error_args :: "error \<Rightarrow> string list" where
  "error_args e = (case e of KeyError key \<Rightarrow> [key] | Fault msg \<Rightarrow> [msg] | _ \<Rightarrow> [])"

definition contains :: "string \<Rightarrow> string \<Rightarrow> bool" where
  "contains s t = list_ex (\<lambda>i. take (length t) (drop i s) = t) [0..<Suc (length s)]"

definition mentions :: "error \<Rightarrow> string \<Rightarrow> bool" where
  "mentions e t = list_ex (\<lambda>arg. contains arg t) (error_args e)"

section \<open>Reading the call trace\<close>

text \<open>
  The governance events of a run: event type, payload and the record the logger
  returned, for every call of the logger that returned, in the order of the calls.
\<close>

fun logged :: "trace \<Rightarrow> (string \<times> log_payload \<times> governance_log_record) list" where
  "logged [] = []"
| "logged ((Log ev p, Logged r) # rest) = (ev, p, r) # logged rest"
| "logged (_ # rest) = logged rest"

text \<open>The document requests of a run: the list sent and the response received.\<close>

fun docs_exchanges :: "trace \<Rightarrow> (string list \<times> pyval) list" where
  "docs_exchanges [] = []"
| "docs_exchanges ((RequestDocs docs, DocsResponse dr) # rest) = (docs, dr) # docs_exchanges rest"
| "docs_exchanges (_ # rest) = docs_exchanges rest"

text \<open>The policy-by-id calls of a run: the id lists sent, whatever came back.\<close>

fun lookups :: "trace \<Rightarrow> string list list" where
  "lookups [] = []"
| "lookups ((PolicyById ids, _) # rest) = ids # lookups rest"
| "lookups (_ # rest) = lookups rest"

text \<open>The chunk lists the policy retriever returned in a run.\<close>

fun retrievals :: "trace \<Rightarrow> policy_chunk list list" where
  "retrievals [] = []"
| "retrievals ((Retrieve q k, Retrieved chunks) # rest) = chunks # retrievals rest"
| "retrievals (_ # rest) = retrievals rest"

text \<open>The mappings policy-by-id returned in a run.\<close>

fun canonicals :: "trace \<Rightarrow> (string \<rightharpoonup> policy_chunk) list" where
  "canonicals [] = []"
| "canonicals ((PolicyById ids, Canonical resolved) # rest) = resolved # canonicals rest"
| "canonicals (_ # rest) = canonicals rest"

text \<open>
  The calls of the interest-policy resolver that returned: the chunks and the tier it
  was called with, and its answer.
\<close>

fun band_calls :: "trace \<Rightarrow> (policy_chunk list \<times> string \<times> interest_band option) list" where
  "band_calls [] = []"
| "band_calls ((ResolveBand chunks tier, Band band) # rest) = (chunks, tier, band) # band_calls rest"
| "band_calls (_ # rest) = band_calls rest"

text \<open>
  The calls of the document requester, answered or not: the lists sent. The calls of
  the logger for the event docs\_requested, answered or not: the payloads sent.
\<close>

fun docs_calls :: "trace \<Rightarrow> string list list" where
  "docs_calls [] = []"
| "docs_calls ((RequestDocs docs, _) # rest) = docs # docs_calls rest"
| "docs_calls (_ # rest) = docs_calls rest"

fun docs_events :: "trace \<Rightarrow> log_payload list" where
  "docs_events [] = []"
| "docs_events ((Log ev payload, _) # rest) =
     (if ev = ''docs_requested'' then payload # docs_events rest else docs_events rest)"
| "docs_events (_ # rest) = docs_events rest"

definition logged_response_id :: "log_payload \<Rightarrow> string option" where
  "logged_response_id payload = (case payload of DocsRequested a docs i \<Rightarrow> i | _ \<Rightarrow> None)"

section \<open>The specification's wording\<close>

text \<open>
  The response identifier as the specification words it: the value of the first key, in
  the priority order, that is present in the response map with a non-empty value; null
  if there is none. A value is empty when it is null, the empty string, the empty list
  or the empty map.
\<close>

definition nonempty :: "pyval \<Rightarrow> bool" where
  "nonempty v = (v \<noteq> PNone \<and> v \<noteq> PStr [] \<and> v \<noteq> PList [] \<and> v \<noteq> PDict [])"

definition spec_response_id :: "(string \<times> pyval) list \<Rightarrow> pyval option" where
  "spec_response_id d =
     (case find (\<lambda>key. case map_of d key of None \<Rightarrow> False | Some v \<Rightarrow> nonempty v)
             [''request_id'', ''id'', ''identifier'', ''response_id'', ''log_id''] of
        None \<Rightarrow> None
      | Some key \<Rightarrow> map_of d key)"

text \<open>
  The response identifier with the two amendments: a value counts when Python takes it
  for true (so not null, false, zero, the empty string, the empty list or the empty
  map), and the identifier is its conversion with \<open>str\<close>.
\<close>

definition first_truthy_id :: "(pyval \<Rightarrow> string) \<Rightarrow> (string \<times> pyval) list \<Rightarrow> string option" where
  "first_truthy_id repr d =
     (case find (\<lambda>key. case map_of d key of None \<Rightarrow> False | Some v \<Rightarrow> truthy v)
             [''request_id'', ''id'', ''identifier'', ''response_id'', ''log_id''] of
        None \<Rightarrow> None
      | Some key \<Rightarrow> map_option (py_str repr) (map_of d key))"

text \<open>
  The band taken from the chunks as the specification words it: the first chunk, in
  order, whose \<open>interest_band\<close> has both the minimum and the maximum APR supplies the
  band; the policy reference defaults to the chunk id and the conditions to the empty
  list.
\<close>

definition complete_band :: "policy_chunk \<Rightarrow> (real \<times> real \<times> band_data) option" where
  "complete_band chunk =
     (case interest_band_md (chunk_metadata chunk) of
        None \<Rightarrow> None
      | Some bd \<Rightarrow>
          (case md_min_apr bd of
             None \<Rightarrow> None
           | Some lo \<Rightarrow> (case md_max_apr bd of None \<Rightarrow> None | Some hi \<Rightarrow> Some (lo, hi, bd))))"

definition spec_band :: "policy_chunk list \<Rightarrow> interest_band option" where
  "spec_band chunks =
     (case find (\<lambda>chunk. complete_band chunk \<noteq> None) chunks of
        None \<Rightarrow> None
      | Some chunk \<Rightarrow>
          map_option
            (\<lambda>(lo, hi, bd).
               \<lparr>min_apr = lo, max_apr = hi,
                policy_reference = (case md_policy_reference bd of None \<Rightarrow> chunk_id chunk | Some r \<Rightarrow> r),
                conditions = (case md_conditions bd of None \<Rightarrow> [] | Some cs \<Rightarrow> cs)\<rparr>)
            (complete_band chunk))"

text \<open>
  The resolved chunks of a run as the specification words them: every retrieved chunk, in
  order, replaced by the canonical chunk that policy-by-id returned for its id, and kept
  when it returned none.
\<close>

definition spec_resolved :: "trace \<Rightarrow> policy_chunk list" where
  "spec_resolved tr =
     map (\<lambda>chunk.
            case (case canonicals tr of [] \<Rightarrow> None | resolved # _ \<Rightarrow> resolved (chunk_id chunk)) of
              None \<Rightarrow> chunk
            | Some canonical \<Rightarrow> canonical)
       (concat (retrievals tr))"

text \<open>
  The band of a run as the specification words it: the band the interest-policy resolver
  returned, when it was called and returned one, and otherwise the band taken from the
  resolved chunks.
\<close>

definition spec_suggestion_band :: "trace \<Rightarrow> interest_band option" where
  "spec_suggestion_band tr =
     (case band_calls tr of
        (chunks, tier, Some band) # _ \<Rightarrow> Some band
      | _ \<Rightarrow> spec_band (spec_resolved tr))"

section \<open>The fixture of the tests (tests/test\_agent.py)\<close>

text \<open>
  The collaborators of the test fixture, on a world that counts the governance events
  written so far. The retriever returns the given chunks and the optional resolver is
  the given one.
\<close>

definition demo_chunk :: policy_chunk where
  "demo_chunk =
     \<lparr>chunk_id = ''chunk-xyz'', chunk_title = ''SMB Lending Policy'', chunk_section = ''3.1'',
      chunk_text = ''Loans flagged as medium risk must document collateral.'',
      chunk_metadata =
        \<lparr>guidance = Some ''Documented collateral required'',
         interest_band_md =
           Some \<lparr>md_min_apr = Some 6, md_max_apr = Some (17 / 2),
                 md_policy_reference = Some ''POL-APR-01'',
                 md_conditions = Some [''Manual review'']\<rparr>,
         required_documents_md = Some [''Collateral appraisal report'']\<rparr>\<rparr>"

definition demo_application :: loan_application where
  "demo_application =
     \<lparr>application_id = ''APP-001'',
      borrower = [''credit_score'' \<mapsto> PInt 610, ''income_verified'' \<mapsto> PBool False],
      loan = [''collateral_required'' \<mapsto> PBool True],
      region = ''NY'', product = ''smb_term'', app_context = None\<rparr>"

definition demo_repr :: "pyval \<Rightarrow> string" where
  "demo_repr v = (case v of PInt i \<Rightarrow> (if i = 610 then ''610'' else ''0'') | _ \<Rightarrow> ''None'')"

definition demo_assistant ::
  "policy_chunk list \<Rightarrow> (policy_chunk list \<Rightarrow> string \<Rightarrow> (interest_band option, nat) tool) option
     \<Rightarrow> nat assistant" where
  "demo_assistant chunks resolver =
     \<lparr>policy_docs_retriever = (\<lambda>query top_k n. Inr (chunks, n)),
      risk_scoring_api =
        (\<lambda>payload n.
           Inr (\<lparr>score = 55,
                 features = [\<lparr>feature_code = ''CREDIT_SCORE'',
                              feature_description = ''Credit score below internal target'',
                              feature_value = get_or (rp_borrower payload) ''credit_score'' (PInt 0),
                              feature_direction = ''increase'', feature_weight = 21 / 100\<rparr>],
                 reason_codes = [\<lparr>code = ''CREDIT_SCORE'',
                                  description = ''Credit score below target''\<rparr>]\<rparr>, n)),
      get_policy_by_id =
        (\<lambda>ids n. Inr (map_of (filter (\<lambda>(i, c). i \<in> set ids)
                                 (map (\<lambda>c. (chunk_id c, c)) chunks)), n)),
      compose_user_packet =
        (\<lambda>data n. Inr (PDict [(''format'', PStr ''html''), (''content'', PStr ''ok'')], n)),
      request_additional_docs =
        (\<lambda>docs n. Inr (PDict [(''requested'', PList (map PStr docs)),
                               (''request_id'', PStr ''doc-req-1'')], n)),
      governance_log =
        (\<lambda>ev payload n.
           Inr (\<lparr>event_type = ev, log_id = ''log-'' @ [char_of (49 + n)], payload_hash = None\<rparr>,
                Suc n)),
      interest_policy_resolver = resolver,
      policy_top_k = 5\<rparr>"

section \<open>Further example inputs\<close>

text \<open>A chunk whose text has 51 words.\<close>

definition wordy_chunk :: policy_chunk where
  "wordy_chunk = demo_chunk\<lparr>chunk_text := concat (replicate 51 ''word '')\<rparr>"

text \<open>A chunk whose text has 51 words with a no-break space (U+00A0) after each.\<close>

definition nbsp_chunk :: policy_chunk where
  "nbsp_chunk = demo_chunk\<lparr>chunk_text := concat (replicate 51 (''word'' @ [CHR 0xC2, CHR 0xA0]))\<rparr>"

text \<open>
  A response of the document requester whose first candidate key holds the number 0,
  and the fixture with a requester that answers so.
\<close>

definition zero_id_response :: "(string \<times> pyval) list" where
  "zero_id_response = [(''request_id'', PInt 0), (''id'', PStr ''doc-7'')]"

definition zero_id_assistant :: "nat assistant" where
  "zero_id_assistant =
     (demo_assistant [] None)\<lparr>request_additional_docs := (\<lambda>docs n. Inr (PDict zero_id_response, n))\<rparr>"

text \<open>An interest-policy resolver that answers with a fixed band, or with none.\<close>

definition override_band :: interest_band where
  "override_band = \<lparr>min_apr = 3, max_apr = 4, policy_reference = ''DESK-RATE'', conditions = []\<rparr>"

definition fixed_resolver ::
  "interest_band option \<Rightarrow> policy_chunk list \<Rightarrow> string \<Rightarrow> (interest_band option, nat) tool" where
  "fixed_resolver band = (\<lambda>policy_chunks risk_tier n. Inr (band, n))"

text \<open>
  Tools behind the adapters, on a world that lists the arguments of the calls made so
  far, and a parser of numerals that knows one numeral.
\<close>

definition recording_retriever :: "pyval \<Rightarrow> int \<Rightarrow> (policy_chunk list, (pyval \<times> int) list) tool" where
  "recording_retriever query top_k calls = Inr ([], calls @ [(query, top_k)])"

definition recording_tool :: "'r \<Rightarrow> 'a \<Rightarrow> ('r, 'a list) tool" where
  "recording_tool result arg calls = Inr (result, calls @ [arg])"

definition recording_logger ::
  "pyval \<Rightarrow> pyval \<Rightarrow> (governance_log_record, (pyval \<times> pyval) list) tool" where
  "recording_logger event payload calls =
     Inr (\<lparr>event_type = py_str demo_repr event, log_id = ''log-1'', payload_hash = None\<rparr>,
          calls @ [(event, payload)])"

definition recording_resolver ::
  "pyval list \<Rightarrow> pyval \<Rightarrow> (interest_band option, (pyval list \<times> pyval) list) tool" where
  "recording_resolver chunks risk_tier calls = Inr (None, calls @ [(chunks, risk_tier)])"

definition demo_score :: risk_score_result where
  "demo_score = \<lparr>score = 55, features = [], reason_codes = []\<rparr>"

definition demo_int_of_str :: "string \<Rightarrow> int option" where
  "demo_int_of_str s = (if s = ''5'' then Some 5 else None)"

section \<open>Properties\<close>

text \<open>
  C1. For every numeric score the tier is Low exactly when the score is below 34, Med
  exactly when it is at least 34 and below 67, and High exactly when it is at least 67;
  the boundary scores 34 and 67 give Med and High.
\<close>

theorem tier_from_score_iff:
  "(tier_from_score s = ''Low'' \<longleftrightarrow> s < 34)
   \<and> (tier_from_score s = ''Med'' \<longleftrightarrow> 34 \<le> s \<and> s < 67)
   \<and> (tier_from_score s = ''High'' \<longleftrightarrow> 67 \<le> s)
   \<and> tier_from_score 34 = ''Med'' \<and> tier_from_score 67 = ''High''"
  by (simp add: tier_from_score_def)

subsection \<open>Runs of the orchestrator\<close>

lemma return_eq: "return x (w, tr) = (res, tr') \<longleftrightarrow> res = Inr (x, w) \<and> tr' = tr"
  by (auto simp: return_def)

lemma bind_cases:
  assumes "bind m f s = (res, tr)"
  obtains (Abort) e where "m s = (Inl e, tr)" "res = Inl e"
        | (Continue) x w1 tr1 where "m s = (Inr (x, w1), tr1)" "f x (w1, tr1) = (res, tr)"
  using assms by (auto simp: bind_def split: prod.splits sum.splits)

lemma bind_InrE:
  assumes "bind m f s = (Inr r, tr)"
  obtains x w1 tr1 where "m s = (Inr (x, w1), tr1)" "f x (w1, tr1) = (Inr r, tr)"
  using assms by (auto simp: bind_def split: prod.splits sum.splits)

lemma bind_Inr_iff:
  "bind m f s = (Inr r, tr) \<longleftrightarrow>
     (\<exists>x w1 tr1. m s = (Inr (x, w1), tr1) \<and> f x (w1, tr1) = (Inr r, tr))"
  by (auto simp: bind_def split: prod.splits sum.splits)

lemma invoke_Inr:
  "invoke c out tool (w, tr) = (Inr (x, w'), tr') \<longleftrightarrow>
     tool w = Inr (x, w') \<and> tr' = tr @ [(c, out x)]"
  by (auto simp: invoke_def split: sum.splits)

lemma logged_append: "logged (xs @ ys) = logged xs @ logged ys"
  by (induction xs rule: logged.induct) auto

lemma docs_exchanges_append: "docs_exchanges (xs @ ys) = docs_exchanges xs @ docs_exchanges ys"
  by (induction xs rule: docs_exchanges.induct) auto

lemma resolve_trace:
  "resolve_policy_chunks self cs (w, tr) = (res, tr') \<Longrightarrow>
     \<exists>r. tr' = tr @ (if cs = [] then [] else [(PolicyById (map chunk_id cs), r)])"
  by (auto simp: resolve_policy_chunks_def return_def bind_def invoke_def
      split: sum.splits if_splits)

lemma band_trace:
  "determine_interest_band self tier cs (w, tr) = (res, tr') \<Longrightarrow>
     \<exists>r. tr' = tr @ (if interest_policy_resolver self = None then []
                      else [(ResolveBand cs tier, r)])"
  by (auto simp: determine_interest_band_def return_def bind_def invoke_def
      split: sum.splits if_splits option.splits)

text \<open>
  C4. In every assessment that completes, the governance log ids of the result are the
  log ids the logger returned, in the order of its calls; the events logged are
  problem\_received, retrieval\_done, risk\_scored, docs\_requested when documents were
  requested, and packet\_composed; so the list has four entries without a document
  request and five with one.
\<close>

theorem governance_log_ids_in_call_order:
  assumes "assess repr upper self app (w, []) = (Inr (resp, w'), tr)"
  shows "governance_log_ids resp = map (\<lambda>(ev, p, r). log_id r) (logged tr)
     \<and> map fst (logged tr) =
         [''problem_received'', ''retrieval_done'', ''risk_scored'']
         @ (if requested_documents resp = [] then [] else [''docs_requested''])
         @ [''packet_composed'']
     \<and> length (governance_log_ids resp) = (if requested_documents resp = [] then 4 else 5)"
  using assms
  apply (simp only: assess_def Let_def)
  apply (erule bind_InrE)+
  apply (simp only: return_eq log_event_def invoke_Inr)
  apply (elim conjE)
  apply (drule resolve_trace)
  apply (drule band_trace)
  apply (auto simp: return_eq invoke_Inr bind_Inr_iff logged_append split: if_splits)
  done

lemma fold_finite:
  assumes "\<And>c S. finite S \<Longrightarrow> finite (f c S)"
  shows "finite S \<Longrightarrow> finite (fold f xs S)"
  by (induction xs arbitrary: S) (simp_all add: assms)

lemma fold_grows:
  assumes "\<And>c S. S \<subseteq> f c S"
  shows "S \<subseteq> fold f xs S"
proof (induction xs arbitrary: S)
  case Nil
  show ?case by simp
next
  case (Cons x xs)
  have "S \<subseteq> f x S" by (rule assms)
  also have "\<dots> \<subseteq> fold f xs (f x S)" by (rule Cons.IH)
  finally show ?case by simp
qed

lemma income_verification_requested:
  assumes "\<not> truthy (get_or (borrower app) ''income_verified'' (PBool False))"
  shows "''Recent income verification (e.g., pay stubs or bank statements)''
           \<in> set (determine_requested_documents upper app rr cs)"
proof -
  let ?by_code = "\<lambda>rc docs.
      let docs = (if startswith (upper (code rc)) ''DTI''
                  then insert ''Detailed debt obligation schedule'' docs else docs)
      in if startswith (upper (code rc)) ''CREDIT''
         then insert ''Updated credit bureau report'' docs else docs"
  let ?by_chunk = "\<lambda>chunk docs.
      fold insert (or_default (required_documents_md (chunk_metadata chunk)) []) docs"
  have fin: "finite S \<Longrightarrow> finite (fold ?by_chunk cs (fold ?by_code (reason_codes rr) S))" for S
    by (intro fold_finite) (simp_all add: Let_def)
  have grow_insert: "S \<subseteq> fold insert xs S" for xs :: "string list" and S
    by (rule fold_grows) auto
  have grows: "S \<subseteq> fold ?by_chunk cs (fold ?by_code (reason_codes rr) S)" for S
  proof -
    have "S \<subseteq> fold ?by_code (reason_codes rr) S"
      by (rule fold_grows) (auto simp: Let_def)
    also have "\<dots> \<subseteq> fold ?by_chunk cs (fold ?by_code (reason_codes rr) S)"
      by (rule fold_grows) (rule grow_insert)
    finally show ?thesis .
  qed
  show ?thesis
    using assms fin grows
    unfolding determine_requested_documents_def Let_def
    by (auto simp: subset_iff)
qed

lemma demo_documents:
  "determine_requested_documents upper demo_application rr cs \<noteq> []"
  using income_verification_requested [of demo_application upper rr cs]
  by (auto simp: demo_application_def get_or_def or_default_def)

lemma demo_run:
  "\<exists>resp w' tr. assess demo_repr ascii_upper (demo_assistant [] None) demo_application (0, [])
       = (Inr (resp, w'), tr) \<and> requested_documents resp \<noteq> []
     \<and> retrievals tr = [[]]
     \<and> docs_exchanges tr =
         [(requested_documents resp,
           PDict [(''requested'', PList (map PStr (requested_documents resp))),
                  (''request_id'', PStr ''doc-req-1'')])]"
  by (simp add: assess_def Let_def bind_def invoke_def return_def log_event_def
      demo_assistant_def resolve_policy_chunks_def determine_interest_band_def demo_documents)

lemma demo_run_chunk:
  "\<exists>resp w' tr. assess demo_repr ascii_upper (demo_assistant [demo_chunk] None) demo_application (0, [])
       = (Inr (resp, w'), tr)
     \<and> retrievals tr = [[demo_chunk]] \<and> canonicals tr = [[''chunk-xyz'' \<mapsto> demo_chunk]]
     \<and> band_calls tr = []"
  by (simp add: assess_def Let_def bind_def invoke_def return_def log_event_def
      demo_assistant_def resolve_policy_chunks_def determine_interest_band_def demo_documents
      demo_chunk_def)

theorem governance_log_ids_in_call_order_witness:
  "\<exists>resp w' tr. assess demo_repr ascii_upper (demo_assistant [] None) demo_application (0, [])
       = (Inr (resp, w'), tr)
     \<and> governance_log_ids resp = map (\<lambda>(ev, p, r). log_id r) (logged tr)
     \<and> length (governance_log_ids resp) = 5"
proof -
  obtain resp w' tr where
    run: "assess demo_repr ascii_upper (demo_assistant [] None) demo_application (0, []) = (Inr (resp, w'), tr)"
    and docs: "requested_documents resp \<noteq> []"
    using demo_run by blast
  from governance_log_ids_in_call_order [OF run] docs run show ?thesis
    by auto
qed

subsection \<open>Requested documents\<close>

lemma requested_documents_strict:
  "sorted (determine_requested_documents upper app rr cs) \<and> distinct (determine_requested_documents upper app rr cs)"
  by (simp add: determine_requested_documents_def Let_def)

text \<open>
  C2. For every application, risk-score result and list of resolved chunks, the
  requested-documents list is sorted in ascending order (the order of strings, case
  sensitive) and has no duplicates.
\<close>

theorem requested_documents_sorted_distinct:
  "sorted (determine_requested_documents upper app rr cs)
   \<and> distinct (determine_requested_documents upper app rr cs)"
  by (rule requested_documents_strict)

subsection \<open>Canonical policy chunks\<close>

text \<open>
  C5. For every list of retrieved chunks and every mapping, possibly partial, that
  policy-by-id returns for their ids, resolving returns a list of the same length whose
  i-th element is the canonical chunk of the i-th retrieved chunk's id when the mapping
  has that id, and the i-th retrieved chunk itself otherwise: no chunk is dropped and
  the order is kept.
\<close>

theorem resolved_chunks_canonical_or_original:
  assumes "get_policy_by_id self (map chunk_id chunks) w = Inr (resolved, w1)"
  shows "\<exists>out w2 tr2. resolve_policy_chunks self chunks (w, tr) = (Inr (out, w2), tr2)
     \<and> length out = length chunks
     \<and> (\<forall>i<length chunks. out ! i = (case resolved (chunk_id (chunks ! i)) of
                                           None \<Rightarrow> chunks ! i | Some canonical \<Rightarrow> canonical))"
proof (cases "chunks = []")
  case True
  then show ?thesis by (simp add: resolve_policy_chunks_def return_def)
next
  case False
  with assms have "resolve_policy_chunks self chunks (w, tr) =
      (Inr (map (\<lambda>chunk. get_or resolved (chunk_id chunk) chunk) chunks, w1),
       tr @ [(PolicyById (map chunk_id chunks), Canonical resolved)])"
    by (simp add: resolve_policy_chunks_def return_def bind_def invoke_def)
  then show ?thesis
    by (simp add: get_or_def or_default_def)
qed

theorem resolved_chunks_canonical_or_original_witness:
  "\<exists>out w2 tr2.
     resolve_policy_chunks (demo_assistant [demo_chunk] None)
       [demo_chunk\<lparr>chunk_text := ''stale''\<rparr>, demo_chunk\<lparr>chunk_id := ''chunk-abc''\<rparr>] (0, [])
       = (Inr (out, w2), tr2)
     \<and> length out = 2 \<and> out ! 0 = demo_chunk \<and> out ! 1 = demo_chunk\<lparr>chunk_id := ''chunk-abc''\<rparr>"
proof -
  let ?chunks = "[demo_chunk\<lparr>chunk_text := ''stale''\<rparr>, demo_chunk\<lparr>chunk_id := ''chunk-abc''\<rparr>]"
  have answer: "get_policy_by_id (demo_assistant [demo_chunk] None) (map chunk_id ?chunks) 0
      = Inr ([''chunk-xyz'' \<mapsto> demo_chunk], 0)"
    by (simp add: demo_assistant_def demo_chunk_def)
  from resolved_chunks_canonical_or_original [OF answer, of "[]"]
  obtain out w2 tr2 where
    run: "resolve_policy_chunks (demo_assistant [demo_chunk] None) ?chunks (0, []) = (Inr (out, w2), tr2)"
    and len: "length out = length ?chunks"
    and each: "\<forall>i<length ?chunks. out ! i =
        (case [''chunk-xyz'' \<mapsto> demo_chunk] (chunk_id (?chunks ! i)) of
           None \<Rightarrow> ?chunks ! i | Some canonical \<Rightarrow> canonical)"
    by blast
  from each [rule_format, of 0] have first: "out ! 0 = demo_chunk"
    by (simp add: demo_chunk_def)
  from each [rule_format, of 1] have second: "out ! 1 = demo_chunk\<lparr>chunk_id := ''chunk-abc''\<rparr>"
    by (simp add: demo_chunk_def)
  from run len first second show ?thesis by simp
qed

lemma lookups_append: "lookups (xs @ ys) = lookups xs @ lookups ys"
  by (induction xs rule: lookups.induct) auto

lemma retrievals_append: "retrievals (xs @ ys) = retrievals xs @ retrievals ys"
  by (induction xs rule: retrievals.induct) auto

lemma invoke_trace:
  "invoke c out tool (w, tr) = (res, tr') \<Longrightarrow>
     tr' = tr @ [(c, case res of Inl e \<Rightarrow> Raised e | Inr (x, w') \<Rightarrow> out x)]"
  by (auto simp: invoke_def split: sum.splits)

lemma docs_step_trace:
  "(if b then bind (invoke (RequestDocs docs) DocsResponse t1)
               (\<lambda>dr. bind (invoke (Log ev (P dr)) Logged (t2 dr)) (\<lambda>r. return (f r)))
    else return ids) (w, tr) = (res, tr') \<Longrightarrow>
   lookups tr' = lookups tr \<and> retrievals tr' = retrievals tr"
  by (auto simp: bind_def invoke_def return_def lookups_append retrievals_append
      split: if_splits sum.splits prod.splits)

lemma resolve_lookups:
  "resolve_policy_chunks self cs (w, tr) = (res, tr') \<Longrightarrow>
     retrievals tr' = retrievals tr \<and> (cs = [] \<longrightarrow> lookups tr' = lookups tr)"
  by (auto simp: resolve_policy_chunks_def return_def bind_def invoke_def retrievals_append
      split: sum.splits if_splits)

lemma band_lookups:
  "determine_interest_band self tier cs (w, tr) = (res, tr') \<Longrightarrow>
     retrievals tr' = retrievals tr \<and> lookups tr' = lookups tr"
  by (auto simp: determine_interest_band_def return_def bind_def invoke_def retrievals_append
      lookups_append split: sum.splits if_splits option.splits)

lemma resolve_Inr:
  "resolve_policy_chunks self cs (w, tr) = (Inr (out, w'), tr') \<Longrightarrow>
     retrievals tr' = retrievals tr \<and> (cs = [] \<longrightarrow> out = [])"
  by (auto simp: resolve_policy_chunks_def return_def bind_def invoke_def retrievals_append
      split: sum.splits if_splits)

lemma no_lookups:
  assumes "assess repr upper self app (w, []) = (res, tr)"
    and "retrievals tr = [[]]"
  shows "lookups tr = []"
  using assms
  apply (simp only: assess_def Let_def log_event_def)
  apply (elim bind_cases)
  apply (auto simp: return_eq lookups_append retrievals_append
      dest!: invoke_trace docs_step_trace resolve_lookups band_lookups)
  done

lemma no_citations:
  assumes "assess repr upper self app (w, []) = (Inr (resp, w'), tr)"
    and "retrievals tr = [[]]"
  shows "policy_citations resp = []"
  using assms
  apply (simp only: assess_def Let_def)
  apply (erule bind_InrE)+
  apply (simp only: return_eq log_event_def invoke_Inr)
  apply (elim conjE)
  apply (drule resolve_Inr)
  apply (drule band_lookups)
  apply (drule docs_step_trace)
  apply (auto simp: retrievals_append build_policy_citations_def slice_to_def)
  done

text \<open>
  C10. When the policy retriever returned the empty list, no run of the assessment,
  completed or aborted, calls the policy-by-id collaborator; resolving the empty list
  returns the empty list and leaves the world and the trace as they are, and a run that
  completes cites no policy chunk.
\<close>

theorem no_lookup_for_empty_retrieval:
  assumes "assess repr upper self app (w, []) = (res, tr)"
    and "retrievals tr = [[]]"
  shows "lookups tr = []
     \<and> resolve_policy_chunks self [] (w1, tr1) = (Inr ([], w1), tr1)
     \<and> (\<forall>resp w'. res = Inr (resp, w') \<longrightarrow> policy_citations resp = [])"
  using no_lookups [OF assms] no_citations assms
  by (auto simp: resolve_policy_chunks_def return_def)

theorem no_lookup_for_empty_retrieval_witness:
  "\<exists>resp w' tr. assess demo_repr ascii_upper (demo_assistant [] None) demo_application (0, [])
       = (Inr (resp, w'), tr)
     \<and> retrievals tr = [[]] \<and> lookups tr = [] \<and> policy_citations resp = []
     \<and> resolve_policy_chunks (demo_assistant [] None) [] (0, []) = (Inr ([], 0), [])"
proof -
  obtain resp w' tr where
    run: "assess demo_repr ascii_upper (demo_assistant [] None) demo_application (0, []) = (Inr (resp, w'), tr)"
    and retrieved: "retrievals tr = [[]]"
    using demo_run by blast
  from no_lookup_for_empty_retrieval [OF run retrieved, of 0 "[]"] run retrieved show ?thesis
    by blast
qed

subsection \<open>The document request\<close>

lemma docs_calls_append: "docs_calls (xs @ ys) = docs_calls xs @ docs_calls ys"
  by (induction xs rule: docs_calls.induct) auto

lemma docs_events_append: "docs_events (xs @ ys) = docs_events xs @ docs_events ys"
  by (induction xs rule: docs_events.induct) auto

lemma response_id_find:
  "response_id repr m ks =
     (case find (\<lambda>key. case m key of None \<Rightarrow> False | Some v \<Rightarrow> truthy v) ks of
        None \<Rightarrow> None
      | Some key \<Rightarrow> map_option (py_str repr) (m key))"
  by (induction ks) (auto simp: get_def get_or_def or_default_def Let_def split: option.splits)

lemma tool_response_id_spec:
  "tool_response_id repr dr = (case dr of PDict d \<Rightarrow> first_truthy_id repr d | _ \<Rightarrow> None)"
  by (simp add: tool_response_id_def first_truthy_id_def response_id_find split: pyval.splits)

lemma docs_step_shape:
  "(if b then bind (invoke (RequestDocs docs) DocsResponse t1)
               (\<lambda>dr. bind (invoke (Log ev (P dr)) Logged (t2 dr)) (\<lambda>r. return (f r)))
    else return ids) (w, tr) = (res, tr') \<Longrightarrow>
   (\<not> b \<and> tr' = tr)
   \<or> (b \<and> (\<exists>e. tr' = tr @ [(RequestDocs docs, Raised e)]))
   \<or> (b \<and> (\<exists>dr answer. tr' = tr @ [(RequestDocs docs, DocsResponse dr), (Log ev (P dr), answer)]))"
  by (auto simp: bind_def invoke_def return_def split: if_splits sum.splits prod.splits)

lemma resolve_docs:
  "resolve_policy_chunks self cs (w, tr) = (res, tr') \<Longrightarrow>
     docs_calls tr' = docs_calls tr \<and> docs_events tr' = docs_events tr
     \<and> docs_exchanges tr' = docs_exchanges tr"
  by (auto simp: resolve_policy_chunks_def return_def bind_def invoke_def docs_calls_append
      docs_events_append docs_exchanges_append split: sum.splits if_splits)

lemma band_docs:
  "determine_interest_band self tier cs (w, tr) = (res, tr') \<Longrightarrow>
     docs_calls tr' = docs_calls tr \<and> docs_events tr' = docs_events tr
     \<and> docs_exchanges tr' = docs_exchanges tr"
  by (auto simp: determine_interest_band_def return_def bind_def invoke_def docs_calls_append
      docs_events_append docs_exchanges_append split: sum.splits if_splits option.splits)

lemma docs_protocol:
  assumes "assess repr upper self app (w, []) = (res, tr)"
  shows "length (docs_calls tr) \<le> 1
     \<and> (\<forall>docs\<in>set (docs_calls tr). sorted docs \<and> distinct docs \<and> docs \<noteq> [])
     \<and> docs_events tr =
         map (\<lambda>(docs, dr). DocsRequested (application_id app) docs
                              (case dr of PDict d \<Rightarrow> first_truthy_id repr d | _ \<Rightarrow> None))
           (docs_exchanges tr)"
  using assms
  apply (simp only: assess_def Let_def log_event_def)
  apply (elim bind_cases)
  apply (auto simp: return_eq docs_calls_append docs_events_append docs_exchanges_append
      requested_documents_strict tool_response_id_spec
      dest!: invoke_trace docs_step_shape resolve_docs band_docs split: sum.splits)
  done

lemma docs_completed:
  assumes "assess repr upper self app (w, []) = (Inr (resp, w'), tr)"
  shows "docs_calls tr = (if requested_documents resp = [] then [] else [requested_documents resp])
     \<and> (requested_documents resp \<noteq> [] \<longrightarrow>
          (\<exists>dr rec4.
             docs_exchanges tr = [(requested_documents resp, dr)]
             \<and> logged tr ! 3 =
                 (''docs_requested'',
                  DocsRequested (application_id app) (requested_documents resp)
                    (case dr of PDict d \<Rightarrow> first_truthy_id repr d | _ \<Rightarrow> None),
                  rec4)))"
  using assms
  apply (simp only: assess_def Let_def)
  apply (erule bind_InrE)+
  apply (simp only: return_eq log_event_def invoke_Inr)
  apply (elim conjE)
  apply (drule resolve_trace)
  apply (drule band_trace)
  apply (auto simp: return_eq invoke_Inr bind_Inr_iff logged_append docs_exchanges_append
      docs_calls_append tool_response_id_spec split: if_splits)
  done

text \<open>
  C8, as the specification states it, fails. The document requester of the fixture
  answers with a response map whose request\_id is the number 0 and whose id is doc-7.
  The first candidate key present with a non-empty value is request\_id, with the value
  0; the docs\_requested event of the run carries doc-7.
\<close>

theorem docs_requested_event_counterexample:
  "map snd (docs_exchanges (snd (assess demo_repr ascii_upper zero_id_assistant demo_application (0, []))))
     = [PDict zero_id_response]
   \<and> map logged_response_id
       (docs_events (snd (assess demo_repr ascii_upper zero_id_assistant demo_application (0, []))))
     = [Some ''doc-7'']
   \<and> spec_response_id zero_id_response = Some (PInt 0)
   \<and> map_option PStr (tool_response_id demo_repr (PDict zero_id_response))
       \<noteq> spec_response_id zero_id_response"
  by (simp add: assess_def Let_def bind_def invoke_def return_def log_event_def
      zero_id_assistant_def demo_assistant_def resolve_policy_chunks_def
      determine_interest_band_def demo_documents zero_id_response_def logged_response_id_def
      tool_response_id_def get_def get_or_def or_default_def py_str_def
      spec_response_id_def nonempty_def)

text \<open>
  C8, amended. In every run of the assessment, completed or aborted, the document
  requester is called at most once, with a sorted list that has no duplicates and is
  not empty, and for every answer it gives the logger is called once for the event
  docs\_requested, with the list sent and the response identifier: the conversion with
  \<open>str\<close> of the value of the first key among request\_id, id, identifier, response\_id,
  log\_id whose value in the response map Python takes for true (a value that is null,
  false, zero, the empty string, the empty list or the empty map is passed over), and
  null when there is no such key or the response is no map. A run that completes called
  the requester exactly when its requested-documents list is not empty, with that list,
  and its docs\_requested event is the fourth one logged.
\<close>

theorem docs_requested_event:
  assumes "assess repr upper self app (w, []) = (res, tr)"
  shows "length (docs_calls tr) \<le> 1
     \<and> (\<forall>docs\<in>set (docs_calls tr). sorted docs \<and> distinct docs \<and> docs \<noteq> [])
     \<and> docs_events tr =
         map (\<lambda>(docs, dr). DocsRequested (application_id app) docs
                              (case dr of PDict d \<Rightarrow> first_truthy_id repr d | _ \<Rightarrow> None))
           (docs_exchanges tr)
     \<and> (\<forall>resp w'. res = Inr (resp, w') \<longrightarrow>
          docs_calls tr = (if requested_documents resp = [] then [] else [requested_documents resp])
          \<and> (requested_documents resp \<noteq> [] \<longrightarrow>
               (\<exists>dr rec4.
                  docs_exchanges tr = [(requested_documents resp, dr)]
                  \<and> logged tr ! 3 =
                      (''docs_requested'',
                       DocsRequested (application_id app) (requested_documents resp)
                         (case dr of PDict d \<Rightarrow> first_truthy_id repr d | _ \<Rightarrow> None),
                       rec4))))"
  using docs_protocol [OF assms] docs_completed [of repr upper self app w _ _ tr] assms
  by blast

theorem docs_requested_event_witness:
  "\<exists>resp w' tr. assess demo_repr ascii_upper (demo_assistant [] None) demo_application (0, [])
       = (Inr (resp, w'), tr)
     \<and> requested_documents resp \<noteq> []
     \<and> sorted (requested_documents resp)
     \<and> docs_calls tr = [requested_documents resp]
     \<and> docs_events tr =
         [DocsRequested ''APP-001'' (requested_documents resp) (Some ''doc-req-1'')]
     \<and> (\<exists>rec4. logged tr ! 3 =
           (''docs_requested'',
            DocsRequested ''APP-001'' (requested_documents resp) (Some ''doc-req-1''), rec4))"
proof -
  obtain resp w' tr where
    run: "assess demo_repr ascii_upper (demo_assistant [] None) demo_application (0, [])
        = (Inr (resp, w'), tr)"
    and docs: "requested_documents resp \<noteq> []"
    and answer: "docs_exchanges tr =
         [(requested_documents resp,
           PDict [(''requested'', PList (map PStr (requested_documents resp))),
                  (''request_id'', PStr ''doc-req-1'')])]"
    using demo_run by blast
  have id: "first_truthy_id demo_repr
      [(''requested'', PList (map PStr (requested_documents resp))),
       (''request_id'', PStr ''doc-req-1'')] = Some ''doc-req-1''"
    by (simp add: first_truthy_id_def py_str_def)
  have app: "application_id demo_application = ''APP-001''"
    by (simp add: demo_application_def)
  from docs_requested_event [OF run]
  have calls: "docs_calls tr = [requested_documents resp]"
    and sorted: "\<forall>docs\<in>set (docs_calls tr). sorted docs \<and> distinct docs \<and> docs \<noteq> []"
    and events: "docs_events tr =
         map (\<lambda>(docs, dr). DocsRequested (application_id demo_application) docs
                              (case dr of PDict d \<Rightarrow> first_truthy_id demo_repr d | _ \<Rightarrow> None))
           (docs_exchanges tr)"
    and fourth: "\<exists>dr rec4.
        docs_exchanges tr = [(requested_documents resp, dr)]
        \<and> logged tr ! 3 =
            (''docs_requested'',
             DocsRequested (application_id demo_application) (requested_documents resp)
               (case dr of PDict d \<Rightarrow> first_truthy_id demo_repr d | _ \<Rightarrow> None),
             rec4)"
    using docs by simp_all
  from fourth answer id app
  have "\<exists>rec4. logged tr ! 3 =
      (''docs_requested'',
       DocsRequested ''APP-001'' (requested_documents resp) (Some ''doc-req-1''), rec4)"
    by auto
  moreover from events answer id app
  have "docs_events tr = [DocsRequested ''APP-001'' (requested_documents resp) (Some ''doc-req-1'')]"
    by simp
  moreover from sorted calls have "sorted (requested_documents resp)"
    by simp
  ultimately show ?thesis
    using run docs calls by blast
qed

subsection \<open>Interest band\<close>

lemma canonicals_append: "canonicals (xs @ ys) = canonicals xs @ canonicals ys"
  by (induction xs rule: canonicals.induct) auto

lemma band_calls_append: "band_calls (xs @ ys) = band_calls xs @ band_calls ys"
  by (induction xs rule: band_calls.induct) auto

lemma band_from_chunks_spec: "band_from_chunks chunks = spec_band chunks"
  by (induction chunks)
    (auto simp: spec_band_def complete_band_def or_default_def split: option.splits)

lemma band_resolver_some:
  "interest_policy_resolver self = Some resolver \<Longrightarrow> resolver chunks tier w = Inr (Some b, w') \<Longrightarrow>
     determine_interest_band self tier chunks (w, tr) =
       (Inr (Some b, w'), tr @ [(ResolveBand chunks tier, Band (Some b))])"
  by (simp add: determine_interest_band_def bind_def invoke_def return_def)

lemma band_resolver_none:
  "interest_policy_resolver self = Some resolver \<Longrightarrow> resolver chunks tier w = Inr (None, w') \<Longrightarrow>
     determine_interest_band self tier chunks (w, tr) =
       (Inr (spec_band chunks, w'), tr @ [(ResolveBand chunks tier, Band None)])"
  by (simp add: determine_interest_band_def bind_def invoke_def return_def band_from_chunks_spec)

lemma band_no_resolver:
  "interest_policy_resolver self = None \<Longrightarrow>
     determine_interest_band self tier chunks (w, tr) = (Inr (spec_band chunks, w), tr)"
  by (simp add: determine_interest_band_def return_def band_from_chunks_spec)

lemma resolve_shape:
  "resolve_policy_chunks self cs (w, tr) = (Inr (out, w'), tr') \<Longrightarrow>
     (cs = [] \<and> out = [] \<and> tr' = tr)
     \<or> (cs \<noteq> [] \<and> (\<exists>resolved. tr' = tr @ [(PolicyById (map chunk_id cs), Canonical resolved)]
            \<and> out = map (\<lambda>chunk. case resolved (chunk_id chunk) of
                                     None \<Rightarrow> chunk | Some canonical \<Rightarrow> canonical) cs))"
  by (auto simp: resolve_policy_chunks_def return_def bind_def invoke_def get_or_def or_default_def
      split: sum.splits if_splits)

lemma band_shape:
  "determine_interest_band self tier cs (w, tr) = (Inr (band, w'), tr') \<Longrightarrow>
     (interest_policy_resolver self = None \<and> tr' = tr \<and> band = spec_band cs)
     \<or> (\<exists>resolver answer. interest_policy_resolver self = Some resolver
            \<and> tr' = tr @ [(ResolveBand cs tier, Band answer)]
            \<and> band = (case answer of None \<Rightarrow> spec_band cs | Some b \<Rightarrow> Some b))"
  by (auto simp: determine_interest_band_def return_def bind_def invoke_def band_from_chunks_spec
      split: sum.splits option.splits)

lemma band_in_response:
  assumes "assess repr upper self app (w, []) = (Inr (resp, w'), tr)"
  shows "interest_rate_suggestion resp =
       map_option (\<lambda>b. \<lparr>band_apr_percent = [round2 (min_apr b), round2 (max_apr b)],
                        basis = policy_reference b, irs_conditions = conditions b\<rparr>)
         (spec_suggestion_band tr)
     \<and> policy_gap (compliance resp) = (spec_suggestion_band tr = None)
     \<and> map (\<lambda>(chunks, tier, band). (chunks, tier)) (band_calls tr) =
         (case interest_policy_resolver self of
            None \<Rightarrow> []
          | Some resolver \<Rightarrow> [(spec_resolved tr, rs_tier (risk_score resp))])
     \<and> rs_tier (risk_score resp) = tier_from_score (rs_value (risk_score resp))
     \<and> policy_citations resp = build_policy_citations (spec_resolved tr)"
  using assms
  apply (simp only: assess_def Let_def)
  apply (erule bind_InrE)+
  apply (simp only: return_eq log_event_def invoke_Inr)
  apply (elim conjE)
  apply (drule resolve_shape)
  apply (drule band_shape)
  apply (drule docs_step_shape)
  apply (elim disjE conjE exE)
  apply (simp_all add: retrievals_append canonicals_append band_calls_append
      spec_resolved_def spec_suggestion_band_def split: option.split)
  done

text \<open>
  C3. A configured interest-policy resolver that returns a band decides: the band is
  returned as it is, whatever the metadata of the chunks. When no resolver is configured,
  or the resolver returns none, the band comes from the first chunk, in order, whose
  interest\_band has both the minimum and the maximum APR, the policy reference
  defaulting to the chunk id and the conditions to the empty list, and there is no band
  when no chunk has one. In every assessment that completes, the resolver, when one is
  configured, was called once, with the resolved chunks of the run and its tier; the
  band of the result is the one the resolver returned, and otherwise the band taken from
  the resolved chunks of the run; the policy-gap flag is true exactly when there is no
  such band, and the interest-rate suggestion is null then and otherwise carries the
  rounded bounds, the policy reference and the conditions of the band.
\<close>

theorem interest_band_determination:
  "(interest_policy_resolver self = Some resolver \<and> resolver chunks tier w = Inr (Some b, w') \<longrightarrow>
      determine_interest_band self tier chunks (w, tr) =
        (Inr (Some b, w'), tr @ [(ResolveBand chunks tier, Band (Some b))]))
   \<and> (interest_policy_resolver self = Some resolver \<and> resolver chunks tier w = Inr (None, w') \<longrightarrow>
      determine_interest_band self tier chunks (w, tr) =
        (Inr (spec_band chunks, w'), tr @ [(ResolveBand chunks tier, Band None)]))
   \<and> (interest_policy_resolver self = None \<longrightarrow>
      determine_interest_band self tier chunks (w, tr) = (Inr (spec_band chunks, w), tr))
   \<and> (assess repr upper self app (w0, []) = (Inr (resp, w2), tr2) \<longrightarrow>
      interest_rate_suggestion resp =
        map_option (\<lambda>b. \<lparr>band_apr_percent = [round2 (min_apr b), round2 (max_apr b)],
                         basis = policy_reference b, irs_conditions = conditions b\<rparr>)
          (spec_suggestion_band tr2)
      \<and> policy_gap (compliance resp) = (spec_suggestion_band tr2 = None)
      \<and> map (\<lambda>(chunks, tier, band). (chunks, tier)) (band_calls tr2) =
          (case interest_policy_resolver self of
             None \<Rightarrow> []
           | Some resolver \<Rightarrow> [(spec_resolved tr2, rs_tier (risk_score resp))])
      \<and> rs_tier (risk_score resp) = tier_from_score (rs_value (risk_score resp))
      \<and> policy_citations resp = build_policy_citations (spec_resolved tr2))"
  using band_resolver_some [of self resolver chunks tier w b w' tr]
    band_resolver_none [of self resolver chunks tier w w' tr]
    band_no_resolver [of self tier chunks w tr]
    band_in_response [of repr upper self app w0 resp w2 tr2]
  by blast

lemma demo_complete_band:
  "complete_band demo_chunk =
     Some (6, 17 / 2, \<lparr>md_min_apr = Some 6, md_max_apr = Some (17 / 2),
                        md_policy_reference = Some ''POL-APR-01'',
                        md_conditions = Some [''Manual review'']\<rparr>)"
  by (simp add: complete_band_def demo_chunk_def)

lemma demo_spec_band:
  "spec_band [demo_chunk] = Some \<lparr>min_apr = 6, max_apr = 17 / 2, policy_reference = ''POL-APR-01'',
      conditions = [''Manual review'']\<rparr>"
  by (simp add: spec_band_def demo_complete_band del: not_None_eq)

theorem interest_band_determination_witness:
  "determine_interest_band (demo_assistant [demo_chunk] (Some (fixed_resolver (Some override_band))))
      ''Med'' [demo_chunk] (0, [])
     = (Inr (Some override_band, 0), [(ResolveBand [demo_chunk] ''Med'', Band (Some override_band))])
   \<and> determine_interest_band (demo_assistant [demo_chunk] (Some (fixed_resolver None)))
      ''Med'' [demo_chunk] (0, [])
     = (Inr (Some \<lparr>min_apr = 6, max_apr = 17 / 2, policy_reference = ''POL-APR-01'',
                    conditions = [''Manual review'']\<rparr>, 0),
        [(ResolveBand [demo_chunk] ''Med'', Band None)])
   \<and> determine_interest_band (demo_assistant [] None) ''Med'' [] (0, []) = (Inr (None, 0), [])
   \<and> (\<exists>resp w' tr. assess demo_repr ascii_upper (demo_assistant [] None) demo_application (0, [])
          = (Inr (resp, w'), tr)
        \<and> policy_gap (compliance resp) \<and> interest_rate_suggestion resp = None)
   \<and> (\<exists>resp w' tr. assess demo_repr ascii_upper (demo_assistant [demo_chunk] None) demo_application (0, [])
          = (Inr (resp, w'), tr)
        \<and> \<not> policy_gap (compliance resp)
        \<and> interest_rate_suggestion resp =
            Some \<lparr>band_apr_percent = [6, 17 / 2], basis = ''POL-APR-01'',
                  irs_conditions = [''Manual review'']\<rparr>)"
proof -
  obtain resp w' tr where
    run: "assess demo_repr ascii_upper (demo_assistant [] None) demo_application (0, [])
        = (Inr (resp, w'), tr)"
    and none_retrieved: "retrievals tr = [[]]"
    using demo_run by blast
  obtain resp1 w1 tr1 where
    run1: "assess demo_repr ascii_upper (demo_assistant [demo_chunk] None) demo_application (0, [])
        = (Inr (resp1, w1), tr1)"
    and retrieved: "retrievals tr1 = [[demo_chunk]]"
    and canonical: "canonicals tr1 = [[''chunk-xyz'' \<mapsto> demo_chunk]]"
    and no_calls1: "band_calls tr1 = []"
    using demo_run_chunk by blast
  have r1: "interest_policy_resolver (demo_assistant [demo_chunk] (Some (fixed_resolver (Some override_band))))
      = Some (fixed_resolver (Some override_band))"
    and r2: "interest_policy_resolver (demo_assistant [demo_chunk] (Some (fixed_resolver None)))
      = Some (fixed_resolver None)"
    and r3: "interest_policy_resolver (demo_assistant [] None) = None"
    and r4: "interest_policy_resolver (demo_assistant [demo_chunk] None) = None"
    by (simp_all add: demo_assistant_def)
  have f1: "fixed_resolver (Some override_band) [demo_chunk] ''Med'' 0 = Inr (Some override_band, 0)"
    and f2: "fixed_resolver None [demo_chunk] ''Med'' 0 = Inr (None, 0)"
    by (simp_all add: fixed_resolver_def)
  have e: "spec_band [] = None" by (simp add: spec_band_def)
  have rounded: "round2 6 = 6" "round2 (17 / 2) = 17 / 2"
    by (simp_all add: round2_def Let_def)
  from interest_band_determination
      [of "demo_assistant [demo_chunk] (Some (fixed_resolver (Some override_band)))"
        "fixed_resolver (Some override_band)" "[demo_chunk]" "''Med''" 0 override_band 0 "[]"] r1 f1
  have a: "determine_interest_band (demo_assistant [demo_chunk] (Some (fixed_resolver (Some override_band))))
      ''Med'' [demo_chunk] (0, [])
     = (Inr (Some override_band, 0), [(ResolveBand [demo_chunk] ''Med'', Band (Some override_band))])"
    by simp
  from interest_band_determination
      [of "demo_assistant [demo_chunk] (Some (fixed_resolver None))"
        "fixed_resolver None" "[demo_chunk]" "''Med''" 0 _ 0 "[]"] r2 f2
  have b: "determine_interest_band (demo_assistant [demo_chunk] (Some (fixed_resolver None)))
      ''Med'' [demo_chunk] (0, [])
     = (Inr (spec_band [demo_chunk], 0), [(ResolveBand [demo_chunk] ''Med'', Band None)])"
    by simp
  from interest_band_determination
      [of "demo_assistant [] None" _ "[]" "''Med''" 0 _ _ "[]" demo_repr ascii_upper
        demo_application 0 resp w' tr]
    r3 run
  have c: "determine_interest_band (demo_assistant [] None) ''Med'' [] (0, []) = (Inr (spec_band [], 0), [])"
    and d: "interest_rate_suggestion resp =
        map_option (\<lambda>b. \<lparr>band_apr_percent = [round2 (min_apr b), round2 (max_apr b)],
                         basis = policy_reference b, irs_conditions = conditions b\<rparr>)
          (spec_suggestion_band tr)"
    and g: "policy_gap (compliance resp) = (spec_suggestion_band tr = None)"
    and no_calls: "band_calls tr = []"
    by simp_all
  from no_calls none_retrieved have band0: "spec_suggestion_band tr = None"
    by (simp add: spec_suggestion_band_def spec_resolved_def e)
  from interest_band_determination
      [of "demo_assistant [demo_chunk] None" _ "[]" "''Med''" 0 _ _ "[]" demo_repr ascii_upper
        demo_application 0 resp1 w1 tr1]
    r4 run1
  have d1: "interest_rate_suggestion resp1 =
        map_option (\<lambda>b. \<lparr>band_apr_percent = [round2 (min_apr b), round2 (max_apr b)],
                         basis = policy_reference b, irs_conditions = conditions b\<rparr>)
          (spec_suggestion_band tr1)"
    and g1: "policy_gap (compliance resp1) = (spec_suggestion_band tr1 = None)"
    by simp_all
  have resolved1: "spec_resolved tr1 = [demo_chunk]"
    using retrieved canonical by (simp add: spec_resolved_def demo_chunk_def)
  with no_calls1 have band1: "spec_suggestion_band tr1 = spec_band [demo_chunk]"
    by (simp add: spec_suggestion_band_def)
  from d g band0 run have first: "\<exists>resp w' tr.
      assess demo_repr ascii_upper (demo_assistant [] None) demo_application (0, []) = (Inr (resp, w'), tr)
      \<and> policy_gap (compliance resp) \<and> interest_rate_suggestion resp = None"
    by auto
  from d1 g1 band1 run1 have second: "\<exists>resp w' tr.
      assess demo_repr ascii_upper (demo_assistant [demo_chunk] None) demo_application (0, [])
        = (Inr (resp, w'), tr)
      \<and> \<not> policy_gap (compliance resp)
      \<and> interest_rate_suggestion resp =
          Some \<lparr>band_apr_percent = [6, 17 / 2], basis = ''POL-APR-01'',
                irs_conditions = [''Manual review'']\<rparr>"
    by (auto simp: demo_spec_band rounded)
  from a b c first second show ?thesis
    by (simp add: demo_spec_band e)
qed

subsection \<open>Reasons\<close>

text \<open>
  C6. For every risk-score result and list of resolved chunks, the reasons are the first
  eight entries of the feature entries (one per reason code, in the order of the reason
  codes, with source type feature and the reason code as id) followed by the policy
  entries (one per chunk with a guidance key, in the order of the chunks, with source
  type policy and the chunk id as id); so there are at most eight, and every feature
  entry stands before every policy entry.
\<close>

theorem build_reasons_first_eight:
  "build_reasons repr rr cs =
     take 8 (map (feature_reason repr rr) (reason_codes rr)
             @ map policy_reason (filter (\<lambda>chunk. guidance (chunk_metadata chunk) \<noteq> None) cs))
   \<and> length (build_reasons repr rr cs) \<le> 8
   \<and> map source_type (build_reasons repr rr cs) =
       take 8 (replicate (length (reason_codes rr)) ''feature''
               @ replicate (length (filter (\<lambda>chunk. guidance (chunk_metadata chunk) \<noteq> None) cs)) ''policy'')
   \<and> map id_or_code (build_reasons repr rr cs) =
       take 8 (map code (reason_codes rr)
               @ map chunk_id (filter (\<lambda>chunk. guidance (chunk_metadata chunk) \<noteq> None) cs))"
proof -
  let ?F = "map (feature_reason repr rr) (reason_codes rr)"
  let ?P = "map policy_reason (filter (\<lambda>chunk. guidance (chunk_metadata chunk) \<noteq> None) cs)"
  have eq: "build_reasons repr rr cs = take 8 (?F @ ?P)"
    by (simp add: build_reasons_def Let_def slice_to_def)
  have st: "map source_type (?F @ ?P) =
      replicate (length (reason_codes rr)) ''feature''
      @ replicate (length (filter (\<lambda>chunk. guidance (chunk_metadata chunk) \<noteq> None) cs)) ''policy''"
    by (simp add: feature_reason_def policy_reason_def comp_def map_replicate_const Let_def)
  have ids: "map id_or_code (?F @ ?P) =
      map code (reason_codes rr)
      @ map chunk_id (filter (\<lambda>chunk. guidance (chunk_metadata chunk) \<noteq> None) cs)"
    by (simp add: feature_reason_def policy_reason_def comp_def Let_def)
  have "map source_type (build_reasons repr rr cs) = take 8 (map source_type (?F @ ?P))"
    unfolding eq by (rule take_map [symmetric])
  moreover have "map id_or_code (build_reasons repr rr cs) = take 8 (map id_or_code (?F @ ?P))"
    unfolding eq by (rule take_map [symmetric])
  moreover have "length (build_reasons repr rr cs) \<le> 8"
    unfolding eq by simp
  ultimately show ?thesis
    unfolding st ids using eq by blast
qed

subsection \<open>Quotes\<close>

lemma cp_conts:
  "\<forall>b\<in>set conts. is_continuation b \<Longrightarrow>
     code_points_from cur (conts @ rest) = code_points_from (cur @ conts) rest"
  by (induction conts arbitrary: cur) simp_all

lemma cp_append:
  "rest = [] \<or> \<not> is_continuation (hd rest) \<Longrightarrow>
     code_points_from cur (a @ rest) = code_points_from cur a @ code_points rest"
proof (induction a arbitrary: cur)
  case Nil
  then show ?case by (cases rest) (auto simp: code_points_def)
next
  case (Cons b a)
  then show ?case by simp
qed

lemma concat_cp: "concat (code_points_from cur s) = cur @ s"
  by (induction s arbitrary: cur) auto

lemma space_group: "code_points '' '' = ['' '']" "is_space '' ''"
  by (simp_all add: code_points_def is_space_def whitespace_def)

lemma cp_concat_groups:
  "cur \<noteq> [] \<Longrightarrow> \<forall>g\<in>set gs. g \<noteq> [] \<and> \<not> is_continuation (hd g) \<and> (\<forall>b\<in>set (tl g). is_continuation b) \<Longrightarrow>
     code_points_from cur (concat gs) = cur # gs"
proof (induction gs arbitrary: cur)
  case Nil
  then show ?case by simp
next
  case (Cons g gs)
  then obtain b conts where g: "g = b # conts" "\<not> is_continuation b" "\<forall>c\<in>set conts. is_continuation c"
    by (cases g) auto
  have "code_points_from cur (concat (g # gs)) = cur # code_points_from [b] (conts @ concat gs)"
    using Cons.prems(1) g by simp
  also have "code_points_from [b] (conts @ concat gs) = code_points_from g (concat gs)"
    using cp_conts [OF g(3)] g(1) by simp
  also have "\<dots> = g # gs"
    using Cons.IH [of g] Cons.prems(2) g(1) by simp
  finally show ?case .
qed


lemma cp_groups:
  "cur = [] \<or> (\<forall>b\<in>set (tl cur). is_continuation b) \<Longrightarrow>
     \<forall>g\<in>set (code_points_from cur s). g \<noteq> [] \<and> (\<forall>b\<in>set (tl g). is_continuation b)"
proof (induction s arbitrary: cur)
  case Nil
  then show ?case by auto
next
  case (Cons b bs)
  show ?case
  proof (cases "cur = [] \<or> is_continuation b")
    case True
    with Cons.prems have "\<forall>c\<in>set (tl (cur @ [b])). is_continuation c"
      by (cases cur) auto
    with Cons.IH [of "cur @ [b]"] True show ?thesis by simp
  next
    case False
    with Cons.prems Cons.IH [of "[b]"] show ?thesis by simp
  qed
qed

lemma cp_hd:
  "cur \<noteq> [] \<Longrightarrow> code_points_from cur s \<noteq> [] \<and> hd (hd (code_points_from cur s)) = hd cur"
  by (induction s arbitrary: cur) auto

lemma cp_all_lead:
  "cur \<noteq> [] \<Longrightarrow> \<not> is_continuation (hd cur) \<Longrightarrow>
     \<forall>g\<in>set (code_points_from cur s). \<not> is_continuation (hd g)"
proof (induction s arbitrary: cur)
  case Nil
  then show ?case by simp
next
  case (Cons b bs)
  show ?case
  proof (cases "is_continuation b")
    case True
    with Cons.IH [of "cur @ [b]"] Cons.prems show ?thesis by simp
  next
    case False
    with Cons.IH [of "[b]"] Cons.prems show ?thesis by simp
  qed
qed

lemma cp_tl_lead:
  "\<forall>g\<in>set (tl (code_points_from cur s)). \<not> is_continuation (hd g)"
proof (induction s arbitrary: cur)
  case Nil
  then show ?case by simp
next
  case (Cons b bs)
  show ?case
  proof (cases "cur = [] \<or> is_continuation b")
    case True
    with Cons.IH [of "cur @ [b]"] show ?thesis by simp
  next
    case False
    with cp_all_lead [of "[b]" bs] show ?thesis by simp
  qed
qed

lemma cp_concat_wf:
  assumes "a \<noteq> []" "\<forall>b\<in>set (tl a). is_continuation b"
    and "\<forall>g\<in>set gs. g \<noteq> [] \<and> \<not> is_continuation (hd g) \<and> (\<forall>b\<in>set (tl g). is_continuation b)"
  shows "code_points (concat (a # gs)) = a # gs"
proof -
  from assms(1) obtain b conts where a: "a = b # conts" by (cases a) auto
  with assms(2) have conts: "\<forall>c\<in>set conts. is_continuation c" by simp
  have "code_points (concat (a # gs)) = code_points_from [b] (conts @ concat gs)"
    by (simp add: code_points_def a)
  also have "\<dots> = code_points_from a (concat gs)"
    using cp_conts [OF conts, of "[b]"] a by simp
  also have "\<dots> = a # gs"
    using cp_concat_groups [OF assms(1) assms(3)] .
  finally show ?thesis .
qed

lemma sf_nonspace:
  "\<forall>g\<in>set xs. \<not> is_space g \<Longrightarrow> split_from acc (xs @ ys) = split_from (acc @ concat xs) ys"
  by (induction xs arbitrary: acc) simp_all

lemma sf_words:
  assumes "\<forall>g\<in>set (acc @ G). g \<noteq> [] \<and> (\<forall>b\<in>set (tl g). is_continuation b)"
    and "\<forall>g\<in>set (tl (acc @ G)). \<not> is_continuation (hd g)"
    and "\<forall>g\<in>set acc. \<not> is_space g"
  shows "\<forall>x\<in>set (split_from (concat acc) G). x \<noteq> [] \<and> (\<forall>g\<in>set (code_points x). \<not> is_space g)"
  using assms
proof (induction G arbitrary: acc)
  case Nil
  show ?case
  proof (cases acc)
    case Nil
    then show ?thesis by simp
  next
    case (Cons a as)
    have "code_points (concat (a # as)) = a # as"
    proof (rule cp_concat_wf)
      show "a \<noteq> []" using Nil.prems(1) Cons by simp
      show "\<forall>b\<in>set (tl a). is_continuation b" using Nil.prems(1) Cons by simp
      show "\<forall>g\<in>set as. g \<noteq> [] \<and> \<not> is_continuation (hd g) \<and> (\<forall>b\<in>set (tl g). is_continuation b)"
        using Nil.prems(1,2) Cons by auto
    qed
    with Nil.prems(1,3) Cons show ?thesis by auto
  qed
next
  case (Cons g G)
  have word: "acc \<noteq> [] \<Longrightarrow> concat acc \<noteq> [] \<and> (\<forall>g\<in>set (code_points (concat acc)). \<not> is_space g)"
  proof -
    assume "acc \<noteq> []"
    then obtain a as where acc: "acc = a # as" by (cases acc) auto
    have "code_points (concat (a # as)) = a # as"
    proof (rule cp_concat_wf)
      show "a \<noteq> []" using Cons.prems(1) acc by simp
      show "\<forall>b\<in>set (tl a). is_continuation b" using Cons.prems(1) acc by simp
      show "\<forall>g\<in>set as. g \<noteq> [] \<and> \<not> is_continuation (hd g) \<and> (\<forall>b\<in>set (tl g). is_continuation b)"
        using Cons.prems(1,2) acc by auto
    qed
    with Cons.prems(1,3) acc show ?thesis by auto
  qed
  have empty: "concat acc = [] \<longleftrightarrow> acc = []"
    using Cons.prems(1) by (cases acc) auto
  show ?case
  proof (cases "is_space g")
    case True
    have rest: "\<forall>x\<in>set (split_from (concat []) G). x \<noteq> [] \<and> (\<forall>g\<in>set (code_points x). \<not> is_space g)"
    proof (rule Cons.IH)
      show "\<forall>g\<in>set ([] @ G). g \<noteq> [] \<and> (\<forall>b\<in>set (tl g). is_continuation b)"
        using Cons.prems(1) by auto
      show "\<forall>g\<in>set (tl ([] @ G)). \<not> is_continuation (hd g)"
        using Cons.prems(2) by (cases acc; cases G) auto
      show "\<forall>g\<in>set []. \<not> is_space g" by simp
    qed
    with True word empty show ?thesis by auto
  next
    case False
    have "\<forall>x\<in>set (split_from (concat (acc @ [g])) G). x \<noteq> [] \<and> (\<forall>g\<in>set (code_points x). \<not> is_space g)"
    proof (rule Cons.IH)
      show "\<forall>h\<in>set ((acc @ [g]) @ G). h \<noteq> [] \<and> (\<forall>b\<in>set (tl h). is_continuation b)"
        using Cons.prems(1) by auto
      show "\<forall>h\<in>set (tl ((acc @ [g]) @ G)). \<not> is_continuation (hd h)"
        using Cons.prems(2) by auto
      show "\<forall>h\<in>set (acc @ [g]). \<not> is_space h"
        using Cons.prems(3) False by auto
    qed
    with False show ?thesis by simp
  qed
qed

lemma sf_all_lead:
  assumes "\<forall>g\<in>set (acc @ G). g \<noteq> [] \<and> \<not> is_continuation (hd g)"
  shows "\<forall>x\<in>set (split_from (concat acc) G). \<not> is_continuation (hd x)"
  using assms
proof (induction G arbitrary: acc)
  case Nil
  then show ?case by (cases acc) auto
next
  case (Cons g G)
  have word: "concat acc \<noteq> [] \<Longrightarrow> \<not> is_continuation (hd (concat acc))"
    using Cons.prems by (cases acc) auto
  show ?case
  proof (cases "is_space g")
    case True
    from Cons.IH [of "[]"] Cons.prems
    have "\<forall>x\<in>set (split_from [] G). \<not> is_continuation (hd x)" by simp
    with True word show ?thesis by auto
  next
    case False
    from Cons.IH [of "acc @ [g]"] Cons.prems
    have "\<forall>x\<in>set (split_from (concat acc @ g) G). \<not> is_continuation (hd x)" by simp
    with False show ?thesis by simp
  qed
qed

lemma sf_tl_lead:
  assumes "\<forall>g\<in>set (acc @ G). g \<noteq> []"
    and "\<forall>g\<in>set (tl (acc @ G)). \<not> is_continuation (hd g)"
  shows "\<forall>x\<in>set (tl (split_from (concat acc) G)). \<not> is_continuation (hd x)"
  using assms
proof (induction G arbitrary: acc)
  case Nil
  then show ?case by simp
next
  case (Cons g G)
  show ?case
  proof (cases "is_space g")
    case True
    have "\<forall>h\<in>set ([] @ G). h \<noteq> [] \<and> \<not> is_continuation (hd h)"
      using Cons.prems by (cases acc) auto
    from sf_all_lead [OF this]
    have all: "\<forall>x\<in>set (split_from [] G). \<not> is_continuation (hd x)" by simp
    then have "\<forall>x\<in>set (tl (split_from [] G)). \<not> is_continuation (hd x)"
      by (cases "split_from [] G") auto
    with True all show ?thesis by auto
  next
    case False
    from Cons.IH [of "acc @ [g]"] Cons.prems
    have "\<forall>x\<in>set (tl (split_from (concat acc @ g) G)). \<not> is_continuation (hd x)" by simp
    with False show ?thesis by simp
  qed
qed

lemma join_hd: "v \<noteq> [] \<Longrightarrow> join sep (v # vs) \<noteq> [] \<and> hd (join sep (v # vs)) = hd v"
  by (cases vs) auto

lemma split_join_words:
  assumes "w \<noteq> []" "\<forall>g\<in>set (code_points w). \<not> is_space g"
    and "\<forall>x\<in>set ws. x \<noteq> [] \<and> \<not> is_continuation (hd x) \<and> (\<forall>g\<in>set (code_points x). \<not> is_space g)"
  shows "split (join '' '' (w # ws)) = w # ws"
  using assms
proof (induction ws arbitrary: w)
  case Nil
  have "split w = split_from ([] @ concat (code_points w)) []"
    unfolding split_def using sf_nonspace [OF Nil.prems(2), of "[]" "[]"] by simp
  also have "\<dots> = [w]"
    using Nil.prems(1) by (simp add: code_points_def concat_cp)
  finally show ?case by simp
next
  case (Cons v vs)
  let ?J = "join '' '' (v # vs)"
  from Cons.prems(3) have v: "v \<noteq> []" "\<not> is_continuation (hd v)" by simp_all
  with join_hd [of v "'' ''" vs] have J: "?J \<noteq> []" "\<not> is_continuation (hd ?J)" by simp_all
  have sp: "\<not> is_continuation CHR '' ''" by (simp add: is_continuation_def)
  have "code_points (w @ CHR '' '' # ?J) = code_points w @ code_points (CHR '' '' # ?J)"
    unfolding code_points_def [of "w @ CHR '' '' # ?J"] code_points_def [of w]
    using cp_append [of "CHR '' '' # ?J" "[]" w] sp by simp
  also have "code_points (CHR '' '' # ?J) = code_points '' '' @ code_points ?J"
    unfolding code_points_def [of "CHR '' '' # ?J"] code_points_def [of "'' ''"]
    using cp_append [of ?J "[]" "'' ''"] J by simp
  finally have cps: "code_points (w @ CHR '' '' # ?J) = code_points w @ '' '' # code_points ?J"
    by (simp add: space_group)
  have "split (join '' '' (w # v # vs)) = split_from [] (code_points w @ '' '' # code_points ?J)"
    by (simp add: split_def cps)
  also have "\<dots> = split_from w ('' '' # code_points ?J)"
    using sf_nonspace [OF Cons.prems(2), of "[]" "'' '' # code_points ?J"]
    by (simp add: code_points_def concat_cp)
  also have "\<dots> = w # split ?J"
    using Cons.prems(1) by (simp add: space_group split_def)
  also have "split ?J = v # vs"
    using Cons.IH [of v] Cons.prems(3) by simp
  finally show ?case .
qed

lemma split_take_join:
  "split (join '' '' (take n (split s))) = take n (split s)"
proof (cases "take n (split s)")
  case Nil
  show ?thesis unfolding Nil by (simp add: split_def code_points_def)
next
  case (Cons x xs)
  then have n: "0 < n" and W: "split s \<noteq> []" by (cases n; auto)+
  from Cons have x: "x = hd (split s)" and xs: "xs = take (n - 1) (tl (split s))"
    by (cases "split s"; cases n; simp)+
  have grp: "\<forall>g\<in>set ([] @ code_points s). g \<noteq> [] \<and> (\<forall>b\<in>set (tl g). is_continuation b)"
    using cp_groups [of "[]" s] by (simp add: code_points_def)
  have lead: "\<forall>g\<in>set (tl ([] @ code_points s)). \<not> is_continuation (hd g)"
    using cp_tl_lead [of "[]" s] by (simp add: code_points_def)
  have words: "\<forall>y\<in>set (split s). y \<noteq> [] \<and> (\<forall>g\<in>set (code_points y). \<not> is_space g)"
    using sf_words [OF grp lead] by (simp add: split_def)
  have tl_lead: "\<forall>y\<in>set (tl (split s)). \<not> is_continuation (hd y)"
    using sf_tl_lead [OF _ lead] grp by (simp add: split_def)
  have tl_sub: "set xs \<subseteq> set (tl (split s))"
    unfolding xs by (rule set_take_subset)
  have tl_sub2: "set (tl (split s)) \<subseteq> set (split s)"
    using W by (cases "split s") auto
  have "split (join '' '' (x # xs)) = x # xs"
  proof (rule split_join_words)
    have "x \<in> set (split s)" using W x by simp
    with words show "x \<noteq> []" and "\<forall>g\<in>set (code_points x). \<not> is_space g" by blast+
    show "\<forall>y\<in>set xs. y \<noteq> [] \<and> \<not> is_continuation (hd y) \<and> (\<forall>g\<in>set (code_points y). \<not> is_space g)"
      using words tl_lead tl_sub tl_sub2 by blast
  qed
  with Cons show ?thesis by simp
qed

text \<open>
  C7. For every policy chunk, the quote with the word limit 50 is the text of the chunk,
  unchanged, when the text splits at whitespace into at most 50 words, and otherwise the
  first 50 words joined by single spaces; in both cases the words of the quote are the
  first 50 words of the text.
\<close>

theorem quote_first_fifty_words:
  "(length (split (chunk_text chunk)) \<le> 50 \<longrightarrow> quote chunk = chunk_text chunk)
   \<and> (50 < length (split (chunk_text chunk)) \<longrightarrow>
        quote chunk = join '' '' (take 50 (split (chunk_text chunk))))
   \<and> split (quote chunk) = take 50 (split (chunk_text chunk))"
proof -
  have "split (join '' '' (take 50 (split (chunk_text chunk)))) = take 50 (split (chunk_text chunk))"
    by (rule split_take_join)
  then show ?thesis
    by (simp add: quote_def quote_limit_def Let_def slice_to_def)
qed

lemma demo_words: "length (split (chunk_text demo_chunk)) = 8"
  unfolding demo_chunk_def by code_simp

lemma wordy_words: "length (split (chunk_text wordy_chunk)) = 51"
  unfolding wordy_chunk_def demo_chunk_def by code_simp

lemma nbsp_words: "split (chunk_text nbsp_chunk) = replicate 51 ''word''"
  unfolding nbsp_chunk_def demo_chunk_def by code_simp

theorem quote_first_fifty_words_witness:
  "length (split (chunk_text demo_chunk)) \<le> 50 \<and> quote demo_chunk = chunk_text demo_chunk
   \<and> 50 < length (split (chunk_text wordy_chunk))
   \<and> quote wordy_chunk = join '' '' (take 50 (split (chunk_text wordy_chunk)))
   \<and> 50 < length (split (chunk_text nbsp_chunk))
   \<and> quote nbsp_chunk = join '' '' (replicate 50 ''word'')"
  using quote_first_fifty_words [of demo_chunk] quote_first_fifty_words [of wordy_chunk] quote_first_fifty_words [of nbsp_chunk]
  by (simp add: demo_words wordy_words nbsp_words)

subsection \<open>Adapters and missing keys\<close>

text \<open>
  C9, as the specification states it, fails. The adapter of the risk scorer, invoked on
  the empty request map, fails with the \<open>KeyError\<close> of the key \<open>payload\<close>, which does not
  contain the name of the tool; and the adapter of the policy retriever, invoked on the
  empty request map, fails not at all: it calls its tool with the empty query and the
  top-k 5.
\<close>

theorem adapter_missing_key_counterexample:
  "adapter_invoke (adapt_risk_scoring_api (recording_tool demo_score)) (map_of []) []
     = Inl (KeyError ''payload'')
   \<and> \<not> mentions (KeyError ''payload'')
          (adapter_name (adapt_risk_scoring_api (recording_tool demo_score)))
   \<and> adapter_invoke (adapt_policy_docs_retriever demo_int_of_str recording_retriever) (map_of []) []
     = Inr (ChunksMap [], [(PStr '''', 5)])"
  by (simp add: adapter_invoke_def adapt_risk_scoring_api_def adapt_policy_docs_retriever_def
      subscript_def mentions_def contains_def error_args_def get_or_def or_default_def
      py_int_def respond_def recording_retriever_def upt_rec)

text \<open>
  C9, amended. On a request map that lacks a key its handler reads by subscript
  (\<open>payload\<close> of the risk scorer, \<open>data\<close> of the packet composer, \<open>event_type\<close> of the
  governance logger, \<open>risk_tier\<close> of the interest-policy resolver) an adapter fails with
  the \<open>KeyError\<close> of that key, which carries the key alone; for the interest-policy
  resolver a failure to convert the policy chunks comes first. A key its handler reads
  with a default (\<open>query\<close>, \<open>top_k\<close>, \<open>ids\<close>, \<open>documents\<close>, \<open>payload\<close> of the
  governance logger, \<open>policy_chunks\<close>) is replaced by the default (the empty string, 5,
  the empty list, the empty list, the empty map, the empty list): the adapter does what
  it does on the request map that carries the default.
\<close>

theorem adapter_missing_key_behaviour:
  "(payload ''payload'' = None \<longrightarrow>
      adapter_invoke (adapt_risk_scoring_api scorer) payload w = Inl (KeyError ''payload''))
   \<and> (payload ''data'' = None \<longrightarrow>
      adapter_invoke (adapt_compose_user_packet composer) payload w = Inl (KeyError ''data''))
   \<and> (payload ''event_type'' = None \<longrightarrow>
      adapter_invoke (adapt_governance_log logger) payload w = Inl (KeyError ''event_type''))
   \<and> (payload ''risk_tier'' = None \<longrightarrow>
      adapter_invoke (adapt_interest_policy_resolver resolver) payload w =
        (case and_then (py_list (get_or payload ''policy_chunks'' (PList [])))
                (for_each policy_chunk_from_dict) of
           Inl e \<Rightarrow> Inl e
         | Inr chunks \<Rightarrow> Inl (KeyError ''risk_tier'')))
   \<and> (payload ''query'' = None \<longrightarrow>
      adapter_invoke (adapt_policy_docs_retriever int_of_str retriever) payload w =
        adapter_invoke (adapt_policy_docs_retriever int_of_str retriever)
          (payload(''query'' \<mapsto> PStr '''')) w)
   \<and> (payload ''top_k'' = None \<longrightarrow>
      adapter_invoke (adapt_policy_docs_retriever int_of_str retriever) payload w =
        adapter_invoke (adapt_policy_docs_retriever int_of_str retriever)
          (payload(''top_k'' \<mapsto> PInt 5)) w)
   \<and> (payload ''ids'' = None \<longrightarrow>
      adapter_invoke (adapt_get_policy_by_id by_id) payload w =
        adapter_invoke (adapt_get_policy_by_id by_id) (payload(''ids'' \<mapsto> PList [])) w)
   \<and> (payload ''documents'' = None \<longrightarrow>
      adapter_invoke (adapt_request_additional_docs requester) payload w =
        adapter_invoke (adapt_request_additional_docs requester)
          (payload(''documents'' \<mapsto> PList [])) w)
   \<and> (payload ''payload'' = None \<longrightarrow>
      adapter_invoke (adapt_governance_log logger) payload w =
        adapter_invoke (adapt_governance_log logger) (payload(''payload'' \<mapsto> PDict [])) w)
   \<and> (payload ''policy_chunks'' = None \<longrightarrow>
      adapter_invoke (adapt_interest_policy_resolver resolver) payload w =
        adapter_invoke (adapt_interest_policy_resolver resolver)
          (payload(''policy_chunks'' \<mapsto> PList [])) w)"
  by (simp add: adapter_invoke_def adapt_risk_scoring_api_def adapt_compose_user_packet_def
      adapt_governance_log_def adapt_interest_policy_resolver_def adapt_policy_docs_retriever_def
      adapt_get_policy_by_id_def adapt_request_additional_docs_def
      subscript_def get_or_def or_default_def Let_def split: sum.splits)

lemma adapter_defaults_evaluated:
  "adapter_invoke (adapt_policy_docs_retriever demo_int_of_str recording_retriever)
      [''query'' \<mapsto> PStr ''''] [] = Inr (ChunksMap [], [(PStr '''', 5)])"
  "adapter_invoke (adapt_get_policy_by_id (recording_tool [])) [''ids'' \<mapsto> PList []] []
     = Inr (ChunksMap [], [PList []])"
  "adapter_invoke (adapt_request_additional_docs (recording_tool (PDict [])))
      [''documents'' \<mapsto> PList []] [] = Inr (RequestMap (PDict []), [[]])"
  by (simp_all add: adapter_invoke_def adapt_policy_docs_retriever_def adapt_get_policy_by_id_def
      adapt_request_additional_docs_def get_or_def or_default_def py_int_def py_list_def
      respond_def recording_retriever_def recording_tool_def)

theorem adapter_missing_key_behaviour_witness:
  "adapter_invoke (adapt_risk_scoring_api (recording_tool demo_score)) (map_of []) []
     = Inl (KeyError ''payload'')
   \<and> adapter_invoke (adapt_compose_user_packet (recording_tool (PDict []))) (map_of []) []
     = Inl (KeyError ''data'')
   \<and> adapter_invoke (adapt_governance_log recording_logger) (map_of []) []
     = Inl (KeyError ''event_type'')
   \<and> adapter_invoke (adapt_interest_policy_resolver recording_resolver) (map_of []) []
     = Inl (KeyError ''risk_tier'')
   \<and> adapter_invoke (adapt_policy_docs_retriever demo_int_of_str recording_retriever) (map_of []) []
     = Inr (ChunksMap [], [(PStr '''', 5)])
   \<and> adapter_invoke (adapt_get_policy_by_id (recording_tool [])) (map_of []) []
     = Inr (ChunksMap [], [PList []])
   \<and> adapter_invoke (adapt_request_additional_docs (recording_tool (PDict []))) (map_of []) []
     = Inr (RequestMap (PDict []), [[]])"
proof -
  have absent: "(map_of [] :: request) key = None" for key
    by simp
  have chunks: "and_then (py_list (get_or (Map.empty :: request) ''policy_chunks'' (PList [])))
      (for_each policy_chunk_from_dict) = Inr []"
    by (simp add: and_then_def py_list_def get_or_def or_default_def)
  from adapter_missing_key_behaviour
      [where payload = "map_of []" and scorer = "recording_tool demo_score"
         and composer = "recording_tool (PDict [])" and by_id = "recording_tool []" and w = "[]"]
  have a: "adapter_invoke (adapt_risk_scoring_api (recording_tool demo_score)) (map_of []) []
      = Inl (KeyError ''payload'')"
    and b: "adapter_invoke (adapt_compose_user_packet (recording_tool (PDict []))) (map_of []) []
      = Inl (KeyError ''data'')"
    and f: "adapter_invoke (adapt_get_policy_by_id (recording_tool [])) (map_of []) []
      = Inr (ChunksMap [], [PList []])"
    by (simp_all add: absent adapter_defaults_evaluated)
  from adapter_missing_key_behaviour
      [where payload = "map_of []" and logger = recording_logger and w = "[]"]
  have c: "adapter_invoke (adapt_governance_log recording_logger) (map_of []) []
      = Inl (KeyError ''event_type'')"
    by (simp add: absent)
  from adapter_missing_key_behaviour
      [where payload = "map_of []" and resolver = recording_resolver and w = "[]"]
  have d: "adapter_invoke (adapt_interest_policy_resolver recording_resolver) (map_of []) []
      = Inl (KeyError ''risk_tier'')"
    by (simp add: absent chunks)
  from adapter_missing_key_behaviour
      [where payload = "map_of []" and retriever = recording_retriever
         and int_of_str = demo_int_of_str and w = "[]"]
  have e: "adapter_invoke (adapt_policy_docs_retriever demo_int_of_str recording_retriever) (map_of []) []
      = Inr (ChunksMap [], [(PStr '''', 5)])"
    by (simp add: absent adapter_defaults_evaluated)
  from adapter_missing_key_behaviour
      [where payload = "map_of []" and requester = "recording_tool (PDict [])" and w = "[]"]
  have g: "adapter_invoke (adapt_request_additional_docs (recording_tool (PDict []))) (map_of []) []
      = Inr (RequestMap (PDict []), [[]])"
    by (simp add: absent adapter_defaults_evaluated)
  from a b c d e f g show ?thesis by simp
qed

end
